theory Spec2Isabelle
  imports Complex_Main
begin

section \<open>Python values, errors and numpy primitives\<close>

text \<open>
  The mesh generator of \<^verbatim>\<open>Mesh.py\<close> is embedded as pure functions over explicit
  state. Python floats are idealised as real numbers (so there is no rounding error, no
  signed zero and no overflow); the one not-a-number value the code can produce, the
  normalisation \<open>0 / 0\<close> of a zero-length element, is kept as \<open>None\<close>. Python
  integers that count or index are natural numbers. Every exception the code can raise is
  a value of \<open>py_error\<close>, and a function that can raise returns \<open>py_error + 'a\<close>.
\<close>

datatype py_error =
    ValueError | IndexError | KeyError | NameError | TypeError | ZeroDivisionError
  | Exception string

definition bind_err :: "py_error + 'a \<Rightarrow> ('a \<Rightarrow> py_error + 'b) \<Rightarrow> py_error + 'b" where
  "bind_err r f = (case r of Inl e \<Rightarrow> Inl e | Inr v \<Rightarrow> f v)"

type_synonym coordinate = "real \<times> real \<times> real"

type_synonym circle = "(real \<times> real) \<times> real"

definition cx :: "coordinate \<Rightarrow> real" where
  "cx p = fst p"

definition cy :: "coordinate \<Rightarrow> real" where
  "cy p = fst (snd p)"

definition cz :: "coordinate \<Rightarrow> real" where
  "cz p = snd (snd p)"

text \<open>\<^verbatim>\<open>np.round(x, decimals)\<close>: scale, round half to even, scale back.\<close>

definition rint :: "real \<Rightarrow> int" where
  "rint x =
     (let f = \<lfloor>x\<rfloor> in
      if x - of_int f < 1 / 2 then f
      else if 1 / 2 < x - of_int f then f + 1
      else if even f then f else f + 1)"

definition np_round :: "real \<Rightarrow> nat \<Rightarrow> real" where
  "np_round x decimals = of_int (rint (x * 10 ^ decimals)) / 10 ^ decimals"

text \<open>\<^verbatim>\<open>np.linspace(start, stop, num)\<close> for a non-negative \<open>num\<close>.\<close>

definition linspace :: "real \<Rightarrow> real \<Rightarrow> nat \<Rightarrow> real list" where
  "linspace start stop num =
     (if num = 1 then [start]
      else map (\<lambda>i. start + of_nat i * ((stop - start) / of_nat (num - 1))) [0..<num])"

text \<open>
  \<^verbatim>\<open>np.linalg.lstsq\<close> of the two points \<open>(x1, y1)\<close>, \<open>(x2, y2)\<close> against
  \<open>y = m x + c\<close>: the line through them, or, when \<open>x1 = x2\<close> (rank one), the
  minimum-norm least-squares solution.
\<close>

definition lstsq_line :: "real \<times> real \<Rightarrow> real \<times> real \<Rightarrow> real \<times> real" where
  "lstsq_line p q =
     (let x1 = fst p; y1 = snd p; x2 = fst q; y2 = snd q in
      if x1 \<noteq> x2 then (let m = (y2 - y1) / (x2 - x1) in (m, y1 - m * x1))
      else (let yb = (y1 + y2) / 2 in (yb * x1 / (x1 ^ 2 + 1), yb / (x1 ^ 2 + 1))))"

text \<open>\<^verbatim>\<open>dict.setdefault(k, v)\<close> on an insertion-ordered dictionary.\<close>

definition setdefault :: "('k \<times> 'v) list \<Rightarrow> 'k \<Rightarrow> 'v \<Rightarrow> 'v \<times> ('k \<times> 'v) list" where
  "setdefault d k v = (case map_of d k of Some v' \<Rightarrow> (v', d) | None \<Rightarrow> (v, d @ [(k, v)]))"

text \<open>\<^verbatim>\<open>d[k]\<close>, raising \<^verbatim>\<open>KeyError\<close> on a missing key.\<close>

definition getitem :: "('k \<times> 'v) list \<Rightarrow> 'k \<Rightarrow> py_error + 'v" where
  "getitem d k = (case map_of d k of None \<Rightarrow> Inl KeyError | Some v \<Rightarrow> Inr v)"

text \<open>\<^verbatim>\<open>xs[i]\<close> for a non-negative index, raising \<^verbatim>\<open>IndexError\<close> out of range.\<close>

definition list_getitem :: "'a list \<Rightarrow> nat \<Rightarrow> py_error + 'a" where
  "list_getitem xs i = (if i < length xs then Inr (xs ! i) else Inl IndexError)"

text \<open>\<^verbatim>\<open>xs.index(v)\<close>: the first position of \<open>v\<close>, \<^verbatim>\<open>ValueError\<close> if there is none.\<close>

fun list_index :: "'a list \<Rightarrow> 'a \<Rightarrow> py_error + nat" where
  "list_index [] v = Inl ValueError"
| "list_index (x # xs) v =
     (if x = v then Inr 0
      else (case list_index xs v of Inl e \<Rightarrow> Inl e | Inr i \<Rightarrow> Inr (Suc i)))"

section \<open>The helper module \<^verbatim>\<open>static\<close>\<close>

text \<open>
  \<^verbatim>\<open>Mesh.py\<close> starts with \<^verbatim>\<open>from static import *\<close>; that module is not part of the
  sources at hand. The helpers the mesh code calls are parameters of the model, collected
  in one record, so that the theorems about the mesh hold for every implementation of
  them. \<open>get_slope\<close> and \<open>findCircle\<close> may raise; the others are arithmetic.
\<close>

record static_module =
  findCircle :: "real \<Rightarrow> real \<Rightarrow> real \<Rightarrow> real \<Rightarrow> real \<Rightarrow> real \<Rightarrow> py_error + circle"
  line_func :: "real \<Rightarrow> real \<Rightarrow> real \<Rightarrow> real"
  find_min_x_dist :: "coordinate \<Rightarrow> coordinate \<Rightarrow> real"
  get_slope :: "coordinate \<Rightarrow> coordinate \<Rightarrow> py_error + real \<times> real"
  select_segment_function ::
    "bool \<Rightarrow> circle option \<Rightarrow> real \<Rightarrow> real \<Rightarrow> real \<Rightarrow> real \<Rightarrow> real"

text \<open>
  Modelled from the spec: \<^verbatim>\<open>findCircle\<close> of \<^verbatim>\<open>static.py\<close> is missing. The spec has it
  compute the circle centre and radius through three points and fail on collinear points
  through the degenerate determinant of the circle fit; the caller catches
  \<^verbatim>\<open>ZeroDivisionError\<close>.
\<close>

definition findCircle_spec ::
    "real \<Rightarrow> real \<Rightarrow> real \<Rightarrow> real \<Rightarrow> real \<Rightarrow> real \<Rightarrow> py_error + circle" where
  "findCircle_spec x1 y1 x2 y2 x3 y3 =
     (let det = 2 * (x1 * (y2 - y3) + x2 * (y3 - y1) + x3 * (y1 - y2));
          s1 = x1 ^ 2 + y1 ^ 2; s2 = x2 ^ 2 + y2 ^ 2; s3 = x3 ^ 2 + y3 ^ 2 in
      if det = 0 then Inl ZeroDivisionError
      else (let h = (s1 * (y2 - y3) + s2 * (y3 - y1) + s3 * (y1 - y2)) / det;
                k = (s1 * (x3 - x2) + s2 * (x1 - x3) + s3 * (x2 - x1)) / det in
            Inr ((h, k), sqrt ((x1 - h) ^ 2 + (y1 - k) ^ 2))))"

text \<open>
  Modelled from the spec: \<^verbatim>\<open>line_func\<close> of \<^verbatim>\<open>static.py\<close> is missing. The spec has it
  evaluate the reference line at a longitudinal position from the stored slope and
  intercept.
\<close>

definition line_func_spec :: "real \<Rightarrow> real \<Rightarrow> real \<Rightarrow> real" where
  "line_func_spec m c x = m * x + c"

text \<open>
  Modelled from the spec: \<^verbatim>\<open>find_min_x_dist\<close> of \<^verbatim>\<open>static.py\<close> is missing. The spec
  has the search compare the distance between the intersection point and the point on the
  sweep path.
\<close>

definition find_min_x_dist_spec :: "coordinate \<Rightarrow> coordinate \<Rightarrow> real" where
  "find_min_x_dist_spec p q =
     sqrt ((cx p - cx q) ^ 2 + (cy p - cy q) ^ 2 + (cz p - cz q) ^ 2)"

text \<open>
  Modelled from the spec: \<^verbatim>\<open>get_slope\<close> of \<^verbatim>\<open>static.py\<close> is missing. The spec has it
  give the slope between two points (in the plane of the deck); the caller also takes the
  angle of that slope. A vertical pair of points has no slope.
\<close>

definition get_slope_spec :: "coordinate \<Rightarrow> coordinate \<Rightarrow> py_error + real \<times> real" where
  "get_slope_spec p q =
     (if cx q = cx p then Inl ZeroDivisionError
      else (let m = (cz q - cz p) / (cx q - cx p) in Inr (m, arctan m)))"

text \<open>
  Modelled from the spec: \<^verbatim>\<open>select_segment_function\<close> of \<^verbatim>\<open>static.py\<close> is missing.
  The spec has it give the elevation offset of the active profile function; the mesh only
  ever calls it with the curve flag off, where the profile is the straight line.
\<close>

definition select_segment_function_spec ::
    "bool \<Rightarrow> circle option \<Rightarrow> real \<Rightarrow> real \<Rightarrow> real \<Rightarrow> real \<Rightarrow> real" where
  "select_segment_function_spec curve_flag d m c x r = line_func_spec m c x"

definition static_spec :: static_module where
  "static_spec =
     \<lparr>findCircle = findCircle_spec, line_func = line_func_spec,
      find_min_x_dist = find_min_x_dist_spec, get_slope = get_slope_spec,
      select_segment_function = select_segment_function_spec\<rparr>"

section \<open>SweepPath\<close>

record Point =
  pt_x :: real
  pt_y :: real
  pt_z :: real

record SweepPath =
  sp_pt1 :: Point
  sp_pt2 :: Point
  sp_pt3 :: "Point option"
  sp_decimal_lim :: nat
  curve_path :: bool
  sp_zeta :: "real option"
  sp_m :: "real option"
  sp_c :: real
  sp_d :: "circle option"

definition SweepPath_init :: "Point \<Rightarrow> Point \<Rightarrow> Point option \<Rightarrow> SweepPath" where
  "SweepPath_init pt1 pt2 pt3 =
     \<lparr>sp_pt1 = pt1, sp_pt2 = pt2, sp_pt3 = pt3, sp_decimal_lim = 4, curve_path = False,
      sp_zeta = None, sp_m = None, sp_c = 0, sp_d = None\<rparr>"

text \<open>
  What \<^verbatim>\<open>get_sweep_line_properties\<close> hands back to its caller: the tuple
  \<^verbatim>\<open>(zeta, m, c)\<close>, or, from the \<^verbatim>\<open>except\<close> branch, an exception object given to
  \<^verbatim>\<open>return\<close>.
\<close>

datatype sweep_line_properties =
    Properties "real option" "real option" real
  | ExceptionValue string

definition get_sweep_line_properties ::
    "static_module \<Rightarrow> SweepPath \<Rightarrow> py_error + sweep_line_properties \<times> SweepPath" where
  "get_sweep_line_properties S sp =
     (case sp_pt3 sp of
        Some p3 \<Rightarrow>
          (case findCircle S 0 0 (pt_x (sp_pt2 sp)) (pt_z (sp_pt2 sp)) (pt_x p3) (pt_z p3) of
             Inl ZeroDivisionError \<Rightarrow>
               Inr (ExceptionValue ''Zero div error. Point 3 not valid to construct curve line'',
                    sp)
           | Inl e \<Rightarrow> Inl e
           | Inr d \<Rightarrow>
               (let sp' = sp\<lparr>sp_d := Some d, curve_path := True, sp_zeta := Some 0\<rparr> in
                Inr (Properties (sp_zeta sp') (sp_m sp') (sp_c sp'), sp')))
      | None \<Rightarrow>
          (let mc = lstsq_line (pt_x (sp_pt1 sp), pt_z (sp_pt1 sp))
                               (pt_x (sp_pt2 sp), pt_z (sp_pt2 sp));
               m = fst mc;
               sp' = sp\<lparr>sp_d := None, sp_m := Some (np_round m (sp_decimal_lim sp)),
                        sp_zeta := Some (arctan m / pi * 180)\<rparr> in
           Inr (Properties (sp_zeta sp') (sp_m sp') (sp_c sp'), sp')))"

text \<open>
  \<^verbatim>\<open>get_line_function\<close>: the straight path evaluates \<^verbatim>\<open>line_func\<close> (which cannot
  multiply a slope that is still \<^verbatim>\<open>None\<close>); the curved path falls through \<^verbatim>\<open>pass\<close>
  and returns \<^verbatim>\<open>None\<close>.
\<close>

definition get_line_function :: "static_module \<Rightarrow> SweepPath \<Rightarrow> real \<Rightarrow> py_error + real option" where
  "get_line_function S sp x =
     (if \<not> curve_path sp then
        (case sp_m sp of
           None \<Rightarrow> Inl TypeError
         | Some m \<Rightarrow> Inr (Some (line_func S m (sp_c sp) x)))
      else Inr None)"

section \<open>EdgeConstructionLine\<close>

record EdgeConstructionLine =
  edge_ref_point :: coordinate
  width_z :: real
  edge_width_z :: real
  ecl_num_long_beam :: nat
  edge_angle :: real
  ecl_noz :: "real list"
  node_list :: "coordinate list"
  ecl_z_group :: "nat list"

text \<open>
  The constructor. \<^verbatim>\<open>np.linspace\<close> rejects the negative count that fewer than two
  longitudinal lines give. Both branches on the sign of the angle build the same list. The
  attributes \<^verbatim>\<open>slope\<close> and \<^verbatim>\<open>c\<close> are never read by the mesh and are left out.
\<close>

definition EdgeConstructionLine_init ::
    "coordinate \<Rightarrow> real \<Rightarrow> real \<Rightarrow> real \<Rightarrow> nat \<Rightarrow> real \<Rightarrow> py_error + EdgeConstructionLine" where
  "EdgeConstructionLine_init ref_point width_z' edge_width_z' edge_angle' num_long_beam'
       model_plane_y =
     (if num_long_beam' < 2 then Inl ValueError
      else
        (let last_girder = width_z' - edge_width_z';
             nox_girder = linspace edge_width_z' last_girder (num_long_beam' - 2);
             noz' = (0 # nox_girder) @ [width_z'];
             edge_node_x = map (\<lambda>z. - (z * tan (edge_angle' / 180 * pi))) noz';
             nodes = map (\<lambda>(x, z). (x + cx ref_point, model_plane_y + cy ref_point,
                                       z + cz ref_point)) (zip edge_node_x noz') in
         Inr \<lparr>edge_ref_point = ref_point, width_z = width_z', edge_width_z = edge_width_z',
              ecl_num_long_beam = num_long_beam', edge_angle = edge_angle', ecl_noz = noz',
              node_list = nodes, ecl_z_group = [0..<length noz']\<rparr>))"

definition get_node_group_z :: "EdgeConstructionLine \<Rightarrow> coordinate \<Rightarrow> py_error + nat" where
  "get_node_group_z ecl coordinate' = list_index (node_list ecl) coordinate'"

section \<open>The mesh record\<close>

text \<open>
  A node is the dictionary \<^verbatim>\<open>{'tag', 'coordinate', 'x_group', 'z_group'}\<close>; an element
  is the list \<^verbatim>\<open>[element tag, node i, node j, group, transform tag]\<close>.
\<close>

record Node =
  tag :: nat
  coordinate :: coordinate
  x_group :: nat
  z_group :: nat

record Element =
  ele_tag :: nat
  node_i :: nat
  node_j :: nat
  group_index :: nat
  transform_tag :: nat

text \<open>
  The key of the transform registry is \<^verbatim>\<open>repr\<close> of the rounded vector; it is modelled by
  the rounded vector itself, \<open>None\<close> standing for not-a-number.
\<close>

type_synonym vxz_key = "real option list"

text \<open>The arguments of \<^verbatim>\<open>Mesh.__init__\<close>.\<close>

record Mesh_args =
  a_long_dim :: real
  a_width :: real
  a_trans_dim :: real
  a_edge_width :: real
  a_num_trans_beam :: nat
  a_num_long_beam :: nat
  a_skew_1 :: real
  a_skew_2 :: real
  a_orthogonal :: bool
  a_pt1 :: Point
  a_pt2 :: Point
  a_pt3 :: "Point option"
  a_element_counter :: nat
  a_node_counter :: nat
  a_transform_counter :: nat
  a_global_x_grid_count :: nat
  a_global_edge_count :: nat
  a_mesh_origin :: coordinate
  a_quad_ele :: bool

text \<open>
  The attributes of a \<^verbatim>\<open>Mesh\<close> object that the construction reads or writes. The local
  lists of \<^verbatim>\<open>__fixed_sweep_node_meshing\<close> share the fields \<open>assigned_node_tag\<close> and
  \<open>previous_node_tag\<close> with the attributes of the same name of
  \<^verbatim>\<open>__orthogonal_meshing\<close>. \<open>g_sweep_nodes\<close> and \<open>g_z_group_recorder\<close> are the
  module-level variables that \<^verbatim>\<open>__orthogonal_meshing\<close> declares \<^verbatim>\<open>global\<close>; \<open>None\<close>
  is unbound. \<open>mesh_m\<close> and \<open>zeta\<close> are numbers: a mesh over a curved path fails before
  the record is complete.
\<close>

record Mesh =
  long_dim :: real
  num_trans_beam :: nat
  skew_1 :: real
  skew_2 :: real
  orthogonal :: bool
  node_counter :: nat
  element_counter :: nat
  transform_counter :: nat
  global_x_grid_count :: nat
  global_edge_count :: nat
  edge_node_recorder :: "(nat \<times> nat) list"
  decimal_lim :: nat
  skew_threshold :: "real \<times> real"
  curve :: bool
  search_x_inc :: real
  long_ele :: "Element list"
  trans_ele :: "Element list"
  edge_span_ele :: "Element list"
  y_elevation :: real
  transform_dict :: "(vxz_key \<times> nat) list"
  node_spec :: "(nat \<times> Node) list"
  mesh_m :: real
  mesh_c :: real
  mesh_r :: real
  mesh_d :: "circle option"
  mesh_origin :: coordinate
  first_connecting_region_nodes :: "nat list"
  end_connecting_region_nodes :: "nat list"
  sweep_path :: SweepPath
  zeta :: real
  start_edge_line :: EdgeConstructionLine
  end_edge_line :: EdgeConstructionLine
  sweeping_nodes :: "coordinate list"
  noz :: "real list"
  nox :: "real list"
  assigned_node_tag :: "nat list"
  previous_node_tag :: "nat list"
  sweep_path_points :: "coordinate list"
  ortho_previous_node_column :: "nat list"
  uniform_region_x :: "real list"
  g_sweep_nodes :: "coordinate list option"
  g_z_group_recorder :: "nat list option"
  common_z_group_element :: "(nat \<times> nat list) list"
  z_group_to_ele :: "(nat \<times> Element list) list"
  x_group_to_ele :: "(nat \<times> Element list) list"
  node_width_z_dict :: "(nat \<times> coordinate list) list"
  node_connect_z_dict :: "(nat \<times> nat list) list"
  node_width_x_dict :: "(nat \<times> coordinate list) list"
  node_connect_x_dict :: "(nat \<times> nat list) list"
  grid_number_dict :: "(nat \<times> nat option list) list"
  grid_vicinity_dict :: "(nat \<times> (string \<times> nat) list) list"

section \<open>Transform registry\<close>

text \<open>
  \<^verbatim>\<open>__get_vector_xz\<close>: the in-plane vector of the element turned by 90 degrees and
  normalised. numpy divides a zero vector by its zero length into not-a-number (with a
  warning, not an exception).
\<close>

definition get_vector_xz :: "coordinate \<Rightarrow> coordinate \<Rightarrow> real option list" where
  "get_vector_xz node_i' node_j' =
     (let xi = cx node_j' - cx node_i';
          zi = cz node_j' - cz node_i';
          x = zi;
          z = - xi;
          length' = sqrt (x ^ 2 + z ^ 2);
          x1 = (if length' = 0 then None else Some (x / length'));
          z1 = (if length' = 0 then None else Some (z / length')) in
      [x1, Some 0, z1])"

definition rounded_vxz :: "nat \<Rightarrow> coordinate \<Rightarrow> coordinate \<Rightarrow> vxz_key" where
  "rounded_vxz decimals node_i' node_j' =
     map (map_option (\<lambda>num. np_round num decimals)) (get_vector_xz node_i' node_j')"

text \<open>\<^verbatim>\<open>__get_geo_transform_tag\<close>, called with the two node tags of an element.\<close>

definition get_geo_transform_tag :: "Mesh \<Rightarrow> nat \<Rightarrow> nat \<Rightarrow> py_error + nat \<times> Mesh" where
  "get_geo_transform_tag M n0 n1 =
     bind_err (getitem (node_spec M) n0) (\<lambda>ni.
     bind_err (getitem (node_spec M) n1) (\<lambda>nj.
       (let vxz = rounded_vxz (decimal_lim M) (coordinate ni) (coordinate nj);
            r = setdefault (transform_dict M) vxz (transform_counter M + 1);
            tag_value = fst r;
            M1 = M\<lparr>transform_dict := snd r\<rparr>;
            M2 = (if transform_counter M1 < tag_value
                  then M1\<lparr>transform_counter := tag_value\<rparr> else M1) in
        Inr (tag_value, M2))))"

definition assign_transverse_members :: "Mesh \<Rightarrow> nat \<Rightarrow> nat \<Rightarrow> py_error + Mesh" where
  "assign_transverse_members M pre_node cur_node =
     bind_err (get_geo_transform_tag M pre_node cur_node) (\<lambda>(tg, M1).
       Inr (M1\<lparr>trans_ele := trans_ele M1 @
                  [\<lparr>ele_tag = element_counter M1, node_i = pre_node, node_j = cur_node,
                    group_index = global_x_grid_count M1, transform_tag = tg\<rparr>],
               element_counter := element_counter M1 + 1\<rparr>))"

definition assign_longitudinal_members :: "Mesh \<Rightarrow> nat \<Rightarrow> nat \<Rightarrow> nat \<Rightarrow> py_error + Mesh" where
  "assign_longitudinal_members M pre_node cur_node cur_z_group =
     bind_err (get_geo_transform_tag M pre_node cur_node) (\<lambda>(tg, M1).
       Inr (M1\<lparr>long_ele := long_ele M1 @
                  [\<lparr>ele_tag = element_counter M1, node_i = pre_node, node_j = cur_node,
                    group_index = cur_z_group, transform_tag = tg\<rparr>],
               element_counter := element_counter M1 + 1\<rparr>))"

definition assign_edge_trans_members :: "Mesh \<Rightarrow> nat \<Rightarrow> nat \<Rightarrow> nat \<Rightarrow> py_error + Mesh" where
  "assign_edge_trans_members M previous_node_tag' assigned_node_tag' edge_counter =
     bind_err (get_geo_transform_tag M previous_node_tag' assigned_node_tag') (\<lambda>(tg, M1).
       Inr (M1\<lparr>edge_span_ele := edge_span_ele M1 @
                  [\<lparr>ele_tag = element_counter M1, node_i = previous_node_tag',
                    node_j = assigned_node_tag', group_index = edge_counter,
                    transform_tag = tg\<rparr>],
               element_counter := element_counter M1 + 1\<rparr>))"

section \<open>Sweep nodes and the normal-projection search\<close>

text \<open>
  \<^verbatim>\<open>__rotate_sweep_nodes\<close>. The second comprehension reads the list the first one has
  just rebound, so the \<open>x\<close> it sees is already rotated.
\<close>

definition rotate_sweep_nodes :: "Mesh \<Rightarrow> real \<Rightarrow> coordinate list" where
  "rotate_sweep_nodes M zeta' =
     (let sweep_nodes_x0 = replicate (length (noz M)) (0::real);
          sweep_nodes_x = map (\<lambda>(x, y). x * cos zeta' - y * sin zeta')
                              (zip sweep_nodes_x0 (noz M));
          sweep_nodes_z = map (\<lambda>(x, y). y * cos zeta' + x * sin zeta')
                              (zip sweep_nodes_x (noz M)) in
      map (\<lambda>(x, y, z). (x + cx (mesh_origin M), y + cy (mesh_origin M), z + cz (mesh_origin M)))
          (zip sweep_nodes_x (zip (replicate (length (noz M)) (y_elevation M)) sweep_nodes_z)))"

text \<open>
  One pass of the \<^verbatim>\<open>while\<close> loop of \<^verbatim>\<open>__search_x_point\<close> on the three distances:
  whether the minimum was found, and the abscissa after the pass.
\<close>

definition search_step :: "real \<Rightarrow> real \<Rightarrow> real \<Rightarrow> real \<Rightarrow> real \<Rightarrow> bool \<times> real" where
  "search_step inc d0 d_ub d_lb start_point_x =
     (if d0 < d_lb \<and> d0 < d_ub then (True, start_point_x)
      else if d_lb < d0 \<and> d0 < d_ub then (False, start_point_x - inc)
      else if d0 < d_lb \<and> d_ub < d0 then (False, start_point_x + inc)
      else (False, start_point_x))"

text \<open>
  The elevation the search reads off the sweep path. On a curved path
  \<^verbatim>\<open>get_line_function\<close> gives \<^verbatim>\<open>None\<close>, which the distance helper cannot take as a
  coordinate.
\<close>

definition search_point_z :: "static_module \<Rightarrow> Mesh \<Rightarrow> real \<Rightarrow> py_error + real" where
  "search_point_z S M x =
     (case get_line_function S (sweep_path M) x of
        Inl e \<Rightarrow> Inl e
      | Inr None \<Rightarrow> Inl TypeError
      | Inr (Some z) \<Rightarrow> Inr z)"

text \<open>
  The loop of \<^verbatim>\<open>__search_x_point\<close> from a given abscissa and loop counter; the result
  carries the final loop counter, which is the number of passes made, next to the returned
  pair \<^verbatim>\<open>(start_point_x, z0)\<close>.
\<close>

function search_loop ::
    "static_module \<Rightarrow> Mesh \<Rightarrow> coordinate \<Rightarrow> real \<Rightarrow> nat \<Rightarrow> py_error + (real \<times> real) \<times> nat" where
  "search_loop S M int_point start_point_x loop_counter =
     (case search_point_z S M start_point_x of Inl e \<Rightarrow> Inl e | Inr z0 \<Rightarrow>
      (case search_point_z S M (start_point_x + search_x_inc M) of Inl e \<Rightarrow> Inl e | Inr z_ub \<Rightarrow>
      (case search_point_z S M (start_point_x - search_x_inc M) of Inl e \<Rightarrow> Inl e | Inr z_lb \<Rightarrow>
        (let inc = search_x_inc M;
             d0 = find_min_x_dist S int_point (start_point_x, y_elevation M, z0);
             d_ub = find_min_x_dist S int_point (start_point_x + inc, y_elevation M, z_ub);
             d_lb = find_min_x_dist S int_point (start_point_x - inc, y_elevation M, z_lb);
             st = search_step inc d0 d_ub d_lb start_point_x;
             loop_counter' = loop_counter + 1 in
         if 1000 < loop_counter' then Inr ((snd st, z0), loop_counter')
         else if fst st then Inr ((snd st, z0), loop_counter')
         else search_loop S M int_point (snd st) loop_counter'))))"
  by pat_completeness auto
termination
  by (relation "measure (\<lambda>(S, M, p, x, n). 1001 - n)") auto

definition search_x_point ::
    "static_module \<Rightarrow> Mesh \<Rightarrow> coordinate \<Rightarrow> real \<Rightarrow> py_error + real \<times> real" where
  "search_x_point S M int_point start_point_y =
     (case search_loop S M int_point (cx int_point) 0 of
        Inl e \<Rightarrow> Inl e
      | Inr (res, n) \<Rightarrow> Inr res)"

section \<open>Slicing the rotated template in the edge regions\<close>

text \<open>\<^verbatim>\<open>list(range(a, b))\<close> and reading a module-level variable.\<close>

definition py_range :: "nat \<Rightarrow> nat \<Rightarrow> nat list" where
  "py_range a b = [a..<b]"

definition read_global :: "'a option \<Rightarrow> py_error + 'a" where
  "read_global v = (case v of None \<Rightarrow> Inl NameError | Some x \<Rightarrow> Inr x)"

text \<open>
  The \<^verbatim>\<open>if\<close>/\<^verbatim>\<open>elif\<close> that rebinds \<^verbatim>\<open>sweep_nodes\<close> and \<^verbatim>\<open>z_group_recorder\<close> in the
  start-edge search loop; there is no \<^verbatim>\<open>else\<close>.
\<close>

definition start_edge_slice :: "Mesh \<Rightarrow> coordinate list \<Rightarrow> nat \<Rightarrow> nat \<Rightarrow> Mesh" where
  "start_edge_slice M current_sweep_nodes z_count z_group' =
     (if 90 < 90 + skew_1 M + zeta M then
        M\<lparr>g_sweep_nodes := Some (drop z_count current_sweep_nodes),
          g_z_group_recorder := Some (py_range z_group' (length current_sweep_nodes))\<rparr>
      else if 90 + skew_1 M + zeta M < 90 then
        M\<lparr>g_sweep_nodes := Some (take (z_count + 1) current_sweep_nodes),
          g_z_group_recorder :=
            Some (if z_group' \<noteq> 0 then py_range 0 (z_group' + 1) else [0])\<rparr>
      else M)"

text \<open>The same in the end-edge search loop, with the two slices exchanged.\<close>

definition end_edge_slice :: "Mesh \<Rightarrow> coordinate list \<Rightarrow> nat \<Rightarrow> nat \<Rightarrow> Mesh" where
  "end_edge_slice M current_sweep_nodes z_count z_group' =
     (if 90 < 90 + skew_2 M + zeta M then
        M\<lparr>g_sweep_nodes := Some (take (z_count + 1) current_sweep_nodes),
          g_z_group_recorder :=
            Some (if z_group' \<noteq> 0 then py_range 0 (z_group' + 1) else [0])\<rparr>
      else if 90 + skew_2 M + zeta M < 90 then
        M\<lparr>g_sweep_nodes := Some (drop z_count current_sweep_nodes),
          g_z_group_recorder := Some (py_range z_group' (length current_sweep_nodes))\<rparr>
      else M)"

section \<open>Placing a column of nodes\<close>

text \<open>
  The three statements every node-placement loop shares: \<^verbatim>\<open>node_spec.setdefault\<close> under
  the current \<^verbatim>\<open>node_counter\<close>, the append to \<^verbatim>\<open>assigned_node_tag\<close>, and the increment
  of the counter.
\<close>

definition place_node :: "Mesh \<Rightarrow> coordinate \<Rightarrow> nat \<Rightarrow> nat \<Rightarrow> Mesh" where
  "place_node M node_coordinate xg zg =
     (let M1 = M\<lparr>node_spec :=
                   snd (setdefault (node_spec M) (node_counter M)
                          \<lparr>tag = node_counter M, coordinate = node_coordinate,
                           x_group = xg, z_group = zg\<rparr>)\<rparr>;
          M2 = M1\<lparr>assigned_node_tag := assigned_node_tag M1 @ [node_counter M1]\<rparr> in
      M2\<lparr>node_counter := node_counter M2 + 1\<rparr>)"

text \<open>
  How a loop links the node it has just placed to the one before it in the column:
  \<open>LinkFixed x_count\<close> is the inline append of \<^verbatim>\<open>__fixed_sweep_node_meshing\<close>,
  \<open>LinkTransverse\<close> the call of \<^verbatim>\<open>__assign_transverse_members\<close>, \<open>LinkEdge\<close> the
  edge member and the two edge-recorder entries of the near-orthogonal edge loops.
\<close>

datatype link_kind = LinkFixed nat | LinkTransverse | LinkEdge

definition link_column :: "link_kind \<Rightarrow> Mesh \<Rightarrow> nat \<Rightarrow> py_error + Mesh" where
  "link_column lk M z_count_int =
     (case lk of
        LinkFixed x_count \<Rightarrow>
          bind_err (list_getitem (assigned_node_tag M) (z_count_int - 1)) (\<lambda>pre.
          bind_err (list_getitem (assigned_node_tag M) z_count_int) (\<lambda>cur.
          bind_err (get_geo_transform_tag M pre cur) (\<lambda>(tg, M1).
            Inr (M1\<lparr>trans_ele := trans_ele M1 @
                       [\<lparr>ele_tag = element_counter M1, node_i = pre, node_j = cur,
                         group_index = x_count, transform_tag = tg\<rparr>],
                    element_counter := element_counter M1 + 1\<rparr>))))
      | LinkTransverse \<Rightarrow>
          bind_err (list_getitem (assigned_node_tag M) (z_count_int - 1)) (\<lambda>pre.
          bind_err (list_getitem (assigned_node_tag M) z_count_int) (\<lambda>cur.
            assign_transverse_members M pre cur))
      | LinkEdge \<Rightarrow>
          (if 1 \<le> length (assigned_node_tag M) then
             bind_err (list_getitem (assigned_node_tag M) (z_count_int - 1)) (\<lambda>pre.
             bind_err (list_getitem (assigned_node_tag M) z_count_int) (\<lambda>cur.
             bind_err (assign_edge_trans_members M pre cur (global_edge_count M)) (\<lambda>M1.
               (let r1 = snd (setdefault (edge_node_recorder M1) pre (global_edge_count M1));
                    r2 = snd (setdefault r1 cur (global_edge_count M1)) in
                Inr (M1\<lparr>edge_node_recorder := r2\<rparr>)))))
           else Inr M))"

text \<open>
  Where the \<open>z_group\<close> of a placed node comes from: its position in the column, or the
  module-level \<^verbatim>\<open>z_group_recorder\<close> at that position.
\<close>

datatype z_source = FromIndex | FromRecorder

definition z_group_at :: "z_source \<Rightarrow> Mesh \<Rightarrow> nat \<Rightarrow> py_error + nat" where
  "z_group_at zs M z_count_int =
     (case zs of
        FromIndex \<Rightarrow> Inr z_count_int
      | FromRecorder \<Rightarrow>
          bind_err (read_global (g_z_group_recorder M)) (\<lambda>rec. list_getitem rec z_count_int))"

text \<open>
  The test at the end of the body of the near-orthogonal edge loops that records a full
  column as the first or the end connecting region. (Both edge lines have as many nodes
  as \<^verbatim>\<open>noz\<close>, so the test holds in the last pass only and nothing is appended to the
  list after it has been recorded.)
\<close>

datatype region = NoRegion | FirstRegion | EndRegion

definition set_region :: "region \<Rightarrow> Mesh \<Rightarrow> Mesh" where
  "set_region rg M =
     (case rg of
        NoRegion \<Rightarrow> M
      | FirstRegion \<Rightarrow>
          (if length (assigned_node_tag M) = length (noz M)
           then M\<lparr>first_connecting_region_nodes := assigned_node_tag M\<rparr> else M)
      | EndRegion \<Rightarrow>
          (if length (assigned_node_tag M) = length (noz M)
           then M\<lparr>end_connecting_region_nodes := assigned_node_tag M\<rparr> else M))"

text \<open>
  The loop \<^verbatim>\<open>for (z_count_int, nodes) in enumerate(...)\<close> that places one column: the
  node at the template coordinate shifted by \<open>(x_inc, z_inc)\<close>, with the given \<open>x_group\<close>,
  then the link to the node placed before it.
\<close>

fun place_nodes ::
    "link_kind \<Rightarrow> z_source \<Rightarrow> region \<Rightarrow> real \<Rightarrow> real \<Rightarrow> nat \<Rightarrow> nat \<Rightarrow> coordinate list \<Rightarrow> Mesh
     \<Rightarrow> py_error + Mesh" where
  "place_nodes lk zs rg x_inc z_inc xg z_count_int [] M = Inr M"
| "place_nodes lk zs rg x_inc z_inc xg z_count_int (nodes # rest) M =
     bind_err (z_group_at zs M z_count_int) (\<lambda>zg.
       (let node_coordinate = (cx nodes + x_inc, cy nodes, cz nodes + z_inc);
            M1 = place_node M node_coordinate xg zg in
        bind_err (if 0 < z_count_int then link_column lk M1 z_count_int else Inr M1) (\<lambda>M2.
          place_nodes lk zs rg x_inc z_inc xg (z_count_int + 1) rest (set_region rg M2))))"

section \<open>Longitudinal members between two columns\<close>

text \<open>
  The inner \<^verbatim>\<open>for cur_node in ...\<close> loop with its \<^verbatim>\<open>break\<close>: the first node of the
  current column in the \<open>z_group\<close> of \<open>pre_node\<close> gets the member.
\<close>

fun find_cur_node :: "Mesh \<Rightarrow> nat \<Rightarrow> nat list \<Rightarrow> py_error + Mesh" where
  "find_cur_node M pre_node [] = Inr M"
| "find_cur_node M pre_node (cur_node # rest) =
     bind_err (getitem (node_spec M) cur_node) (\<lambda>c.
     bind_err (getitem (node_spec M) pre_node) (\<lambda>p.
       (let cur_z_group = z_group c; prev_z_group = z_group p in
        if cur_z_group = prev_z_group
        then assign_longitudinal_members M pre_node cur_node cur_z_group
        else find_cur_node M pre_node rest)))"

fun link_longitudinal :: "Mesh \<Rightarrow> nat list \<Rightarrow> nat list \<Rightarrow> py_error + Mesh" where
  "link_longitudinal M [] assigned = Inr M"
| "link_longitudinal M (pre_node # rest) assigned =
     bind_err (find_cur_node M pre_node assigned) (\<lambda>M1. link_longitudinal M1 rest assigned)"

text \<open>\<^verbatim>\<open>for nodes in previous_node_tag: self.edge_node_recorder.setdefault(...)\<close>.\<close>

definition record_edge_nodes :: "Mesh \<Rightarrow> nat list \<Rightarrow> Mesh" where
  "record_edge_nodes M tags =
     M\<lparr>edge_node_recorder :=
         fold (\<lambda>nodes d. snd (setdefault d nodes (global_edge_count M))) tags
              (edge_node_recorder M)\<rparr>"

section \<open>Fixed-sweep meshing\<close>

text \<open>
  The body of the outer loop of \<^verbatim>\<open>__fixed_sweep_node_meshing\<close> after the column has been
  placed.
\<close>

definition fixed_sweep_after_column :: "Mesh \<Rightarrow> nat \<Rightarrow> py_error + Mesh" where
  "fixed_sweep_after_column M x_count =
     (if x_count = 0 then
        (let M1 = M\<lparr>previous_node_tag := assigned_node_tag M\<rparr>;
             M2 = record_edge_nodes M1 (previous_node_tag M1) in
         Inr (M2\<lparr>global_edge_count := global_edge_count M2 + 1\<rparr>))
      else
        bind_err (link_longitudinal M (previous_node_tag M) (assigned_node_tag M)) (\<lambda>M1.
          (let M2 = M1\<lparr>previous_node_tag := assigned_node_tag M1\<rparr> in
           if x_count = length (nox M2) - 1 then
             (let M3 = record_edge_nodes M2 (previous_node_tag M2) in
              Inr (M3\<lparr>global_edge_count := global_edge_count M3 + 1\<rparr>))
           else Inr M2)))"

fun fixed_sweep_columns :: "static_module \<Rightarrow> nat \<Rightarrow> real list \<Rightarrow> Mesh \<Rightarrow> py_error + Mesh" where
  "fixed_sweep_columns S x_count [] M = Inr M"
| "fixed_sweep_columns S x_count (x_inc # rest) M =
     (let z_inc = np_round (select_segment_function S (curve M) (mesh_d M) (mesh_m M)
                              (mesh_m M) x_inc (mesh_r M)) (decimal_lim M) in
      bind_err (place_nodes (LinkFixed x_count) FromIndex NoRegion x_inc z_inc x_count 0
                  (sweeping_nodes M) M) (\<lambda>M1.
      bind_err (fixed_sweep_after_column M1 x_count) (\<lambda>M2.
        fixed_sweep_columns S (x_count + 1) rest (M2\<lparr>assigned_node_tag := []\<rparr>))))"

definition fixed_sweep_node_meshing :: "static_module \<Rightarrow> Mesh \<Rightarrow> py_error + Mesh" where
  "fixed_sweep_node_meshing S M =
     fixed_sweep_columns S 0 (nox M) (M\<lparr>assigned_node_tag := [], previous_node_tag := []\<rparr>)"

section \<open>Orthogonal meshing\<close>

text \<open>\<^verbatim>\<open>xs[0]\<close> or \<^verbatim>\<open>xs[-1]\<close>.\<close>

datatype list_end = AtFront | AtBack

definition pick :: "list_end \<Rightarrow> 'a list \<Rightarrow> py_error + 'a" where
  "pick w xs =
     (case w of
        AtFront \<Rightarrow> list_getitem xs 0
      | AtBack \<Rightarrow> (if xs = [] then Inl IndexError else Inr (last xs)))"

text \<open>
  The skewed edge member between the previous and the current column of a search loop,
  with the two edge-recorder entries.
\<close>

definition link_skew_edge :: "Mesh \<Rightarrow> list_end \<Rightarrow> py_error + Mesh" where
  "link_skew_edge M w =
     bind_err (pick w (previous_node_tag M)) (\<lambda>pre.
     bind_err (pick w (assigned_node_tag M)) (\<lambda>cur.
     bind_err (assign_edge_trans_members M pre cur (global_edge_count M)) (\<lambda>M1.
       (let r1 = snd (setdefault (edge_node_recorder M1) pre (global_edge_count M1));
            r2 = snd (setdefault r1 cur (global_edge_count M1)) in
        Inr (M1\<lparr>edge_node_recorder := r2\<rparr>)))))"

text \<open>
  The two search loops (over the start and over the end edge line) have the same shape;
  \<open>edge_side\<close> selects the skew angle, the edge line, the slicing rule, the end of the
  columns that carries the edge member, and the connecting region.
\<close>

datatype edge_side = StartEdge | EndEdge

definition side_skew :: "edge_side \<Rightarrow> Mesh \<Rightarrow> real" where
  "side_skew sd M = (case sd of StartEdge \<Rightarrow> skew_1 M | EndEdge \<Rightarrow> skew_2 M)"

definition side_edge_line :: "edge_side \<Rightarrow> Mesh \<Rightarrow> EdgeConstructionLine" where
  "side_edge_line sd M = (case sd of StartEdge \<Rightarrow> start_edge_line M | EndEdge \<Rightarrow> end_edge_line M)"

definition side_angle :: "edge_side \<Rightarrow> Mesh \<Rightarrow> real \<Rightarrow> real" where
  "side_angle sd M phi =
     (case sd of
        StartEdge \<Rightarrow> (if 0 < skew_1 M then arctan (zeta M / 180 * pi) else pi / 2 - \<bar>phi\<bar>)
      | EndEdge \<Rightarrow> pi / 2 - \<bar>phi\<bar>)"

definition side_slice :: "edge_side \<Rightarrow> Mesh \<Rightarrow> coordinate list \<Rightarrow> nat \<Rightarrow> nat \<Rightarrow> Mesh" where
  "side_slice sd M current_sweep_nodes z_count z_group' =
     (case sd of
        StartEdge \<Rightarrow> start_edge_slice M current_sweep_nodes z_count z_group'
      | EndEdge \<Rightarrow> end_edge_slice M current_sweep_nodes z_count z_group')"

definition side_link_end :: "edge_side \<Rightarrow> bool \<Rightarrow> list_end" where
  "side_link_end sd is_above =
     (case sd of
        StartEdge \<Rightarrow> (if is_above then AtFront else AtBack)
      | EndEdge \<Rightarrow> (if is_above then AtBack else AtFront))"

definition side_region :: "edge_side \<Rightarrow> region" where
  "side_region sd = (case sd of StartEdge \<Rightarrow> FirstRegion | EndEdge \<Rightarrow> EndRegion)"

text \<open>
  The body of a search loop after its column has been placed, in three parts: the block
  under \<^verbatim>\<open>if z_count > 0\<close> (longitudinal members, the skewed edge member, the update of
  \<^verbatim>\<open>previous_node_tag\<close>), the statements that close the column, and the whole.
\<close>

definition link_search_column :: "edge_side \<Rightarrow> Mesh \<Rightarrow> py_error + Mesh" where
  "link_search_column sd M =
     bind_err (link_longitudinal M (previous_node_tag M) (assigned_node_tag M)) (\<lambda>M2.
     bind_err
       (if 1 \<le> length (assigned_node_tag M2) then
          (if 90 < 90 + side_skew sd M2 + zeta M2
           then link_skew_edge M2 (side_link_end sd True)
           else if 90 + side_skew sd M2 + zeta M2 < 90
           then link_skew_edge M2 (side_link_end sd False)
           else Inr M2)
        else Inr M2) (\<lambda>M3.
       Inr (M3\<lparr>previous_node_tag := assigned_node_tag M3\<rparr>)))"

definition close_search_column :: "edge_side \<Rightarrow> Mesh \<Rightarrow> Mesh" where
  "close_search_column sd M =
     (let M1 = M\<lparr>global_x_grid_count := global_x_grid_count M + 1\<rparr>;
          M2 = set_region (side_region sd) M1;
          M3 = M2\<lparr>ortho_previous_node_column := assigned_node_tag M2\<rparr> in
      M3\<lparr>assigned_node_tag := []\<rparr>)"

definition search_after_column :: "edge_side \<Rightarrow> Mesh \<Rightarrow> nat \<Rightarrow> py_error + Mesh" where
  "search_after_column sd M z_count =
     (let M1 = (if z_count = 0 then M\<lparr>previous_node_tag := assigned_node_tag M\<rparr> else M) in
      bind_err (if 0 < z_count then link_search_column sd M1 else Inr M1) (\<lambda>M2.
        Inr (close_search_column sd M2)))"

text \<open>
  The first part of the body of a search loop: the search for the point of the sweep
  path whose normal meets \<open>int_point\<close>, the rotated template, its slice, and the column
  of nodes. The second argument of \<^verbatim>\<open>__search_x_point\<close> is \<^verbatim>\<open>start_point_x\<close> in both
  loops.
\<close>

definition search_column ::
    "edge_side \<Rightarrow> static_module \<Rightarrow> nat \<Rightarrow> coordinate \<Rightarrow> Mesh \<Rightarrow> py_error + Mesh" where
  "search_column sd S z_count int_point M =
     bind_err (search_x_point S M int_point (cx (mesh_origin M))) (\<lambda>(ref_point_x, ref_point_z).
       (let M1 = M\<lparr>sweep_path_points :=
                     sweep_path_points M @ [(ref_point_x, y_elevation M, ref_point_z)]\<rparr> in
        bind_err (get_slope S (ref_point_x, y_elevation M1, ref_point_z) int_point)
          (\<lambda>(m_prime, phi).
          (let current_sweep_nodes = rotate_sweep_nodes M1 (side_angle sd M1 phi) in
           bind_err (get_node_group_z (side_edge_line sd M1) int_point) (\<lambda>z_group'.
             (let M2 = side_slice sd M1 current_sweep_nodes z_count z_group' in
              bind_err (read_global (g_sweep_nodes M2)) (\<lambda>sweep_nodes'.
                place_nodes LinkTransverse FromRecorder NoRegion ref_point_x ref_point_z
                  (global_x_grid_count M2) 0 sweep_nodes' M2)))))))"

text \<open>
  The loop \<^verbatim>\<open>for z_count, int_point in enumerate(edge_line.node_list)\<close> of the search
  branch.
\<close>

fun search_columns ::
    "edge_side \<Rightarrow> static_module \<Rightarrow> nat \<Rightarrow> coordinate list \<Rightarrow> Mesh \<Rightarrow> py_error + Mesh" where
  "search_columns sd S z_count [] M = Inr M"
| "search_columns sd S z_count (int_point # rest) M =
     bind_err (search_column sd S z_count int_point M) (\<lambda>M1.
     bind_err (search_after_column sd M1 z_count) (\<lambda>M2.
       search_columns sd S (z_count + 1) rest M2))"

text \<open>The first edge construction line (start of the span).\<close>

definition start_edge_region :: "static_module \<Rightarrow> Mesh \<Rightarrow> py_error + Mesh" where
  "start_edge_region S M =
     (let start_point_x = cx (mesh_origin M);
          start_point_z = cz (mesh_origin M) in
      if \<bar>skew_1 M + zeta M\<bar> < fst (skew_threshold M) then
        bind_err (place_nodes LinkEdge FromIndex FirstRegion start_point_x start_point_z
                    (global_x_grid_count M) 0 (node_list (start_edge_line M)) M) (\<lambda>M1.
          (let M2 = M1\<lparr>global_x_grid_count := global_x_grid_count M1 + 1\<rparr> in
           Inr (M2\<lparr>assigned_node_tag := []\<rparr>)))
      else
        bind_err (search_columns StartEdge S 0 (node_list (start_edge_line M)) M) (\<lambda>M1.
          Inr (M1\<lparr>global_edge_count := global_edge_count M1 + 1\<rparr>)))"

text \<open>The second edge construction line (end of the span).\<close>

definition end_edge_region :: "static_module \<Rightarrow> Mesh \<Rightarrow> py_error + Mesh" where
  "end_edge_region S M =
     bind_err (get_line_function S (sweep_path M) (long_dim M)) (\<lambda>end_point_z.
       if \<bar>skew_2 M + zeta M\<bar> < fst (skew_threshold M) then
         bind_err (place_nodes LinkEdge FromIndex EndRegion 0 0
                     (global_x_grid_count M) 0 (node_list (end_edge_line M)) M) (\<lambda>M1.
           Inr (M1\<lparr>global_x_grid_count := global_x_grid_count M1 + 1\<rparr>))
       else
         bind_err (search_columns EndEdge S 0 (node_list (end_edge_line M)) M) (\<lambda>M1.
           Inr (M1\<lparr>global_edge_count := global_edge_count M1 + 1\<rparr>)))"

text \<open>
  The body of the loop over the interior stations \<^verbatim>\<open>uniform_region_x[1:-1]\<close>, in two
  parts: the column of nodes at station \<open>x\<close>, and the statements after it; \<open>n\<close> is the
  number of these stations.
\<close>

definition uniform_column :: "static_module \<Rightarrow> real \<Rightarrow> Mesh \<Rightarrow> py_error + Mesh" where
  "uniform_column S x M =
     bind_err (get_line_function S (sweep_path M) x) (\<lambda>z.
       (let current_sweep_nodes = rotate_sweep_nodes M (zeta M / 180 * pi) in
        if z = None \<and> current_sweep_nodes \<noteq> [] then Inl TypeError
        else place_nodes LinkTransverse FromIndex NoRegion x
               (case z of None \<Rightarrow> 0 | Some z_inc \<Rightarrow> z_inc)
               (global_x_grid_count M) 0 current_sweep_nodes M))"

definition uniform_after_column :: "nat \<Rightarrow> nat \<Rightarrow> Mesh \<Rightarrow> py_error + Mesh" where
  "uniform_after_column n z_count M =
     (let M1 = (if z_count = 0
                then M\<lparr>previous_node_tag := first_connecting_region_nodes M\<rparr>
                else M) in
      bind_err (link_longitudinal M1 (previous_node_tag M1) (assigned_node_tag M1)) (\<lambda>M2.
        (let M3 = M2\<lparr>global_x_grid_count := global_x_grid_count M2 + 1\<rparr> in
         Inr (if z_count \<noteq> n - 1
              then M3\<lparr>previous_node_tag := assigned_node_tag M3, assigned_node_tag := []\<rparr>
              else M3\<lparr>previous_node_tag := assigned_node_tag M3,
                      assigned_node_tag := end_connecting_region_nodes M3\<rparr>))))"

fun uniform_columns ::
    "static_module \<Rightarrow> nat \<Rightarrow> nat \<Rightarrow> real list \<Rightarrow> Mesh \<Rightarrow> py_error + Mesh" where
  "uniform_columns S n z_count [] M = Inr M"
| "uniform_columns S n z_count (x # rest) M =
     bind_err (uniform_column S x M) (\<lambda>M1.
     bind_err (uniform_after_column n z_count M1) (\<lambda>M2.
       uniform_columns S n (z_count + 1) rest M2))"

text \<open>
  The remaining distance with uniform spacing, and the extra step that connects the last
  interior column to the end connecting region.
\<close>

definition uniform_region :: "static_module \<Rightarrow> Mesh \<Rightarrow> py_error + Mesh" where
  "uniform_region S M =
     bind_err (list_getitem (first_connecting_region_nodes M) 0) (\<lambda>x_first.
     bind_err (list_getitem (end_connecting_region_nodes M) 0) (\<lambda>x_second.
     bind_err (getitem (node_spec M) x_first) (\<lambda>nf.
     bind_err (getitem (node_spec M) x_second) (\<lambda>ns.
       (let cor_fir = coordinate nf;
            cor_sec = coordinate ns;
            M1 = M\<lparr>uniform_region_x := linspace (cx cor_fir) (cx cor_sec) (num_trans_beam M)\<rparr>;
            stations = butlast (tl (uniform_region_x M1)) in
        bind_err (uniform_columns S (length stations) 0 stations M1) (\<lambda>M2.
          link_longitudinal M2 (previous_node_tag M2) (assigned_node_tag M2)))))))"

definition orthogonal_meshing :: "static_module \<Rightarrow> Mesh \<Rightarrow> py_error + Mesh" where
  "orthogonal_meshing S M =
     (let M0 = M\<lparr>assigned_node_tag := [], previous_node_tag := [], sweep_path_points := []\<rparr> in
      bind_err (start_edge_region S M0) (\<lambda>M1.
      bind_err (end_edge_region S M1) (\<lambda>M2.
        uniform_region S (M2\<lparr>assigned_node_tag := []\<rparr>))))"

section \<open>Grouping post-pass\<close>

text \<open>\<^verbatim>\<open>d.get(k, default)\<close>, \<^verbatim>\<open>d[k] = v\<close>, \<^verbatim>\<open>np.unique\<close> and \<^verbatim>\<open>max\<close> of a list.\<close>

definition dict_get :: "('k \<times> 'v) list \<Rightarrow> 'k \<Rightarrow> 'v \<Rightarrow> 'v" where
  "dict_get d k dflt = (case map_of d k of None \<Rightarrow> dflt | Some v \<Rightarrow> v)"

fun dict_set :: "('k \<times> 'v) list \<Rightarrow> 'k \<Rightarrow> 'v \<Rightarrow> ('k \<times> 'v) list" where
  "dict_set [] k v = [(k, v)]"
| "dict_set (p # ps) k v = (if fst p = k then (k, v) # ps else p # dict_set ps k v)"

definition np_unique :: "'a::linorder list \<Rightarrow> 'a list" where
  "np_unique xs = sort (remdups xs)"

definition py_max :: "'a::linorder list \<Rightarrow> py_error + 'a" where
  "py_max xs = (case xs of [] \<Rightarrow> Inl ValueError | y # ys \<Rightarrow> Inr (fold max ys y))"

text \<open>
  The elements of a list that touch a node, and, for the elements \<open>n1\<close> found at one end
  of \<open>ele\<close>, the loop that collects their axis-aligned spans and their far nodes.
\<close>

definition touching :: "Element list \<Rightarrow> nat \<Rightarrow> Element list" where
  "touching eles n = filter (\<lambda>e. node_i e = n \<or> node_j e = n) eles"

fun spans_and_neighbours ::
    "(nat \<times> Node) list \<Rightarrow> Element \<Rightarrow> Element list \<Rightarrow> py_error + coordinate list \<times> nat list" where
  "spans_and_neighbours ns ele [] = Inr ([], [])"
| "spans_and_neighbours ns ele (item # rest) =
     bind_err (getitem ns (node_i item)) (\<lambda>a.
     bind_err (getitem ns (node_j item)) (\<lambda>b.
     bind_err (spans_and_neighbours ns ele rest) (\<lambda>(d, p).
       Inr ((\<bar>cx (coordinate a) - cx (coordinate b)\<bar>, \<bar>cy (coordinate a) - cy (coordinate b)\<bar>,
             \<bar>cz (coordinate a) - cz (coordinate b)\<bar>) # d,
            (if node_i item \<noteq> node_i ele \<and> node_i item \<noteq> node_j ele then [node_i item] else []) @
            (if node_j item \<noteq> node_i ele \<and> node_j item \<noteq> node_j ele then [node_j item] else []) @
            p))))"

text \<open>
  One of the three \<^verbatim>\<open>for ele in ...\<close> loops that fill a width dictionary and a connection
  dictionary: \<open>outer\<close> is the list looped over, \<open>inner\<close> the list searched for
  neighbours.
\<close>

fun neighbour_pass ::
    "(nat \<times> Node) list \<Rightarrow> Element list \<Rightarrow> Element list \<Rightarrow>
     (nat \<times> coordinate list) list \<times> (nat \<times> nat list) list \<Rightarrow>
     py_error + (nat \<times> coordinate list) list \<times> (nat \<times> nat list) list" where
  "neighbour_pass ns inner [] wc = Inr wc"
| "neighbour_pass ns inner (ele # rest) wc =
     bind_err (spans_and_neighbours ns ele (touching inner (node_i ele))) (\<lambda>(d1, p1).
     bind_err (spans_and_neighbours ns ele (touching inner (node_j ele))) (\<lambda>(d2, p2).
       neighbour_pass ns inner rest
         (snd (setdefault (snd (setdefault (fst wc) (node_i ele) d1)) (node_j ele) d2),
          snd (setdefault (snd (setdefault (snd wc) (node_i ele) p1)) (node_j ele) p2))))"

text \<open>
  A grid cell is the list \<^verbatim>\<open>[node_tag, x_node, n3, z_node]\<close>, where \<^verbatim>\<open>n3\<close> is the empty
  list when no node closes the cell; \<open>None\<close> stands for that empty list.
\<close>

type_synonym grid_dict = "(nat \<times> nat option list) list"

definition third_node :: "(nat \<times> Node) list \<Rightarrow> nat \<Rightarrow> nat \<Rightarrow> nat list" where
  "third_node ns xg zg = map tag (filter (\<lambda>n. x_group n = xg \<and> z_group n = zg) (map snd ns))"

definition add_grid ::
    "nat \<Rightarrow> nat \<Rightarrow> nat \<Rightarrow> nat list \<Rightarrow> grid_dict \<times> nat \<Rightarrow> grid_dict \<times> nat" where
  "add_grid node_tag x_node z_node n3 gc =
     (case n3 of
        n # others \<Rightarrow>
          (if \<not> list_ex (\<lambda>d. Some node_tag \<in> set d \<and> Some x_node \<in> set d \<and>
                               Some z_node \<in> set d \<and> Some n \<in> set d) (map snd (fst gc))
           then (snd (setdefault (fst gc) (snd gc)
                        [Some node_tag, Some x_node, Some n, Some z_node]), snd gc + 1)
           else gc)
      | [] \<Rightarrow>
          (if \<not> list_ex (\<lambda>d. Some node_tag \<in> set d \<and> Some x_node \<in> set d \<and>
                               Some z_node \<in> set d) (map snd (fst gc))
           then (snd (setdefault (fst gc) (snd gc)
                        [Some node_tag, Some x_node, None, Some z_node]), snd gc + 1)
           else gc))"

fun grid_z_loop ::
    "(nat \<times> Node) list \<Rightarrow> nat \<Rightarrow> nat \<Rightarrow> nat \<Rightarrow> nat list \<Rightarrow> grid_dict \<times> nat
     \<Rightarrow> py_error + grid_dict \<times> nat" where
  "grid_z_loop ns node_tag x_node xg [] gc = Inr gc"
| "grid_z_loop ns node_tag x_node xg (z_node # rest) gc =
     bind_err (getitem ns z_node) (\<lambda>zn.
       grid_z_loop ns node_tag x_node xg rest
         (add_grid node_tag x_node z_node (third_node ns xg (z_group zn)) gc))"

fun grid_x_loop ::
    "(nat \<times> Node) list \<Rightarrow> nat \<Rightarrow> nat list \<Rightarrow> nat list \<Rightarrow> grid_dict \<times> nat
     \<Rightarrow> py_error + grid_dict \<times> nat" where
  "grid_x_loop ns node_tag [] z_vicinity_nodes gc = Inr gc"
| "grid_x_loop ns node_tag (x_node # rest) z_vicinity_nodes gc =
     bind_err (getitem ns x_node) (\<lambda>xn.
     bind_err (grid_z_loop ns node_tag x_node (x_group xn) z_vicinity_nodes gc) (\<lambda>gc1.
       grid_x_loop ns node_tag rest z_vicinity_nodes gc1))"

fun grid_node_loop ::
    "(nat \<times> Node) list \<Rightarrow> (nat \<times> nat list) list \<Rightarrow> (nat \<times> nat list) list \<Rightarrow> nat list \<Rightarrow>
     grid_dict \<times> nat \<Rightarrow> py_error + grid_dict \<times> nat" where
  "grid_node_loop ns connect_x connect_z [] gc = Inr gc"
| "grid_node_loop ns connect_x connect_z (node_tag # rest) gc =
     bind_err (grid_x_loop ns node_tag (dict_get connect_x node_tag [])
                 (dict_get connect_z node_tag []) gc) (\<lambda>gc1.
       grid_node_loop ns connect_x connect_z rest gc1)"

text \<open>
  The groups and coordinates of the nodes of a cell. \<open>skip_falsy\<close> is the
  \<^verbatim>\<open>if not nodes: continue\<close> of the loop over a neighbouring cell, which passes over the
  empty list and over a tag 0; the loop over the current cell has no such test and cannot
  look an empty list up.
\<close>

fun cell_properties ::
    "bool \<Rightarrow> (nat \<times> Node) list \<Rightarrow> nat option list \<Rightarrow>
     py_error + nat list \<times> nat list \<times> real list \<times> real list" where
  "cell_properties skip_falsy ns [] = Inr ([], [], [], [])"
| "cell_properties skip_falsy ns (nd # rest) =
     (if skip_falsy \<and> (nd = None \<or> nd = Some 0) then cell_properties skip_falsy ns rest
      else
        (case nd of
           None \<Rightarrow> Inl TypeError
         | Some n \<Rightarrow>
             bind_err (getitem ns n) (\<lambda>v.
             bind_err (cell_properties skip_falsy ns rest) (\<lambda>(xg, zg, xc, zc).
               Inr (x_group v # xg, z_group v # zg,
                    cx (coordinate v) # xc, cz (coordinate v) # zc)))))"

text \<open>
  \<^verbatim>\<open>[i for i, x in enumerate([node in n for n in grid_number_dict.values()]) if x]\<close>.
\<close>

definition cells_containing :: "grid_dict \<Rightarrow> nat \<Rightarrow> nat list" where
  "cells_containing g node =
     map fst (filter (\<lambda>(i, n). Some node \<in> set n) (zip [0..<length g] (map snd g)))"

text \<open>
  The body of \<^verbatim>\<open>for neighbour in grid_number_record\<close>: classify one neighbouring cell
  against the current cell \<open>k\<close> and write it into \<^verbatim>\<open>subdict\<close>.
\<close>

definition classify_neighbour ::
    "(nat \<times> Node) list \<Rightarrow> grid_dict \<Rightarrow> nat \<Rightarrow> nat list \<Rightarrow> nat list \<Rightarrow> real list \<Rightarrow> real list \<Rightarrow>
     nat \<Rightarrow> (string \<times> nat) list \<Rightarrow> py_error + (string \<times> nat) list" where
  "classify_neighbour ns g k current_x_group current_z_group current_x current_z neighbour
       subdict =
     (if neighbour = k then Inr subdict
      else
        bind_err (getitem g neighbour) (\<lambda>cell.
        bind_err (cell_properties True ns cell) (\<lambda>(xg, zg, xc, zc).
          (let x_group' = np_unique xg; z_group' = np_unique zg;
               x_coor = np_unique xc; z_coor = np_unique zc in
           bind_err
             (if list_all (\<lambda>a. a \<in> set current_x_group) x_group' then
                bind_err (py_max z_coor) (\<lambda>mz.
                bind_err (py_max current_z) (\<lambda>mcz.
                  Inr (if mcz < mz then dict_set subdict ''top'' neighbour
                       else dict_set subdict ''bottom'' neighbour)))
              else Inr subdict) (\<lambda>subdict1.
             (if list_all (\<lambda>a. a \<in> set current_z_group) z_group' then
                bind_err (py_max x_coor) (\<lambda>mx.
                bind_err (py_max current_x) (\<lambda>mcx.
                  Inr (if mcx < mx then dict_set subdict1 ''right'' neighbour
                       else dict_set subdict1 ''left'' neighbour)))
              else Inr subdict1))))))"

fun classify_neighbours ::
    "(nat \<times> Node) list \<Rightarrow> grid_dict \<Rightarrow> nat \<Rightarrow> nat list \<Rightarrow> nat list \<Rightarrow> real list \<Rightarrow> real list \<Rightarrow>
     nat list \<Rightarrow> (string \<times> nat) list \<Rightarrow> py_error + (string \<times> nat) list" where
  "classify_neighbours ns g k cxg czg cxs czs [] subdict = Inr subdict"
| "classify_neighbours ns g k cxg czg cxs czs (neighbour # rest) subdict =
     bind_err (classify_neighbour ns g k cxg czg cxs czs neighbour subdict) (\<lambda>subdict1.
       classify_neighbours ns g k cxg czg cxs czs rest subdict1)"

text \<open>
  The body of \<^verbatim>\<open>for k, grid in self.grid_number_dict.items()\<close>. Removing the empty list
  from \<^verbatim>\<open>grid\<close> changes the list held by the dictionary, so the dictionary is threaded
  through the loop.
\<close>

definition vicinity_of_cell ::
    "(nat \<times> Node) list \<Rightarrow> nat \<Rightarrow> grid_dict \<times> (nat \<times> (string \<times> nat) list) list \<Rightarrow>
     py_error + grid_dict \<times> (nat \<times> (string \<times> nat) list) list" where
  "vicinity_of_cell ns k gv =
     bind_err (getitem (fst gv) k) (\<lambda>grid0.
       (let grid = (if None \<in> set grid0 then remove1 None grid0 else grid0);
            g = dict_set (fst gv) k grid in
        bind_err (cell_properties False ns grid) (\<lambda>(xg, zg, xc, zc).
          (let grid_number_record =
                 np_unique (concat (map (\<lambda>nd. case nd of None \<Rightarrow> []
                                                     | Some node \<Rightarrow> cells_containing g node) grid));
               current_x_group = np_unique xg; current_z_group = np_unique zg;
               current_x = np_unique xc; current_z = np_unique zc in
           bind_err (classify_neighbours ns g k current_x_group current_z_group current_x
                       current_z grid_number_record []) (\<lambda>subdict.
             Inr (g, snd (setdefault (snd gv) k subdict)))))))"

fun vicinity_loop ::
    "(nat \<times> Node) list \<Rightarrow> nat list \<Rightarrow> grid_dict \<times> (nat \<times> (string \<times> nat) list) list \<Rightarrow>
     py_error + grid_dict \<times> (nat \<times> (string \<times> nat) list) list" where
  "vicinity_loop ns [] gv = Inr gv"
| "vicinity_loop ns (k # rest) gv =
     bind_err (vicinity_of_cell ns k gv) (\<lambda>gv1. vicinity_loop ns rest gv1)"

text \<open>\<^verbatim>\<open>__identify_member_groups\<close>.\<close>

definition identify_member_groups :: "Mesh \<Rightarrow> py_error + Mesh" where
  "identify_member_groups M =
     (let ns = node_spec M;
          common = [(0, [0, length (noz M) - 1]), (1, [1]),
                    (2, py_range 2 (length (noz M) - 2)), (3, [length (noz M) - 2])] in
      bind_err (neighbour_pass ns (trans_ele M) (long_ele M) ([], [])) (\<lambda>wcz.
        (let zge = map (\<lambda>count. (count, filter (\<lambda>ele. group_index ele = count) (long_ele M)))
                       [0..<length (noz M)];
             xge = map (\<lambda>count. (count, filter (\<lambda>ele. group_index ele = count) (trans_ele M)))
                       (py_range 0 (global_x_grid_count M)) in
         bind_err (neighbour_pass ns (long_ele M) (trans_ele M) ([], [])) (\<lambda>wcx0.
         bind_err (neighbour_pass ns (long_ele M) (edge_span_ele M) wcx0) (\<lambda>wcx.
         bind_err (grid_node_loop ns (snd wcx) (snd wcz) (map fst ns) ([], 0)) (\<lambda>gc.
         bind_err (vicinity_loop ns (map fst (fst gc)) (fst gc, [])) (\<lambda>gv.
           Inr (M\<lparr>common_z_group_element := common,
                  node_width_z_dict := fst wcz, node_connect_z_dict := snd wcz,
                  z_group_to_ele := zge, x_group_to_ele := xge,
                  node_width_x_dict := fst wcx, node_connect_x_dict := snd wcx,
                  grid_number_dict := fst gv, grid_vicinity_dict := snd gv\<rparr>))))))))"

section \<open>The constructor\<close>

text \<open>
  \<^verbatim>\<open>Mesh.__init__\<close> up to the choice of the meshing algorithm. Unpacking the exception
  object that \<^verbatim>\<open>get_sweep_line_properties\<close> returns for collinear arc points raises
  \<^verbatim>\<open>TypeError\<close>; so does the end edge line over a curved path, whose elevation at
  \<^verbatim>\<open>long_dim\<close> is \<^verbatim>\<open>None\<close>. The module-level variables start unbound.
\<close>

definition Mesh_init :: "static_module \<Rightarrow> Mesh_args \<Rightarrow> py_error + Mesh" where
  "Mesh_init S a =
     bind_err (get_sweep_line_properties S (SweepPath_init (a_pt1 a) (a_pt2 a) (a_pt3 a)))
       (\<lambda>(ret, sp).
       (case ret of
          ExceptionValue msg \<Rightarrow> Inl TypeError
        | Properties zeta' m' c' \<Rightarrow>
            bind_err (EdgeConstructionLine_init (a_mesh_origin a) (a_width a) (a_edge_width a)
                        (a_skew_1 a) (a_num_long_beam a) 0) (\<lambda>start_line.
            bind_err (get_line_function S sp (a_long_dim a)) (\<lambda>end_point_z.
              (case (end_point_z, zeta', m') of
                 (Some ez, Some zt, Some mm) \<Rightarrow>
                   bind_err (EdgeConstructionLine_init (a_long_dim a, 0, ez) (a_width a)
                               (a_edge_width a) (a_skew_2 a) (a_num_long_beam a) 0) (\<lambda>end_line.
                     (let M0 =
                        \<lparr>long_dim = a_long_dim a, num_trans_beam = a_num_trans_beam a,
                         skew_1 = a_skew_1 a, skew_2 = a_skew_2 a, orthogonal = a_orthogonal a,
                         node_counter = a_node_counter a,
                         element_counter = a_element_counter a,
                         transform_counter = a_transform_counter a,
                         global_x_grid_count = a_global_x_grid_count a,
                         global_edge_count = a_global_edge_count a,
                         edge_node_recorder = [], decimal_lim = 3, skew_threshold = (11, 30),
                         curve = False, search_x_inc = 1 / 1000,
                         long_ele = [], trans_ele = [], edge_span_ele = [], y_elevation = 0,
                         transform_dict = [], node_spec = [], mesh_m = mm, mesh_c = c',
                         mesh_r = 0, mesh_d = None, mesh_origin = a_mesh_origin a,
                         first_connecting_region_nodes = [], end_connecting_region_nodes = [],
                         sweep_path = sp, zeta = zt, start_edge_line = start_line,
                         end_edge_line = end_line, sweeping_nodes = [],
                         noz = ecl_noz start_line,
                         nox = linspace 0 (a_long_dim a) (a_num_trans_beam a),
                         assigned_node_tag = [], previous_node_tag = [], sweep_path_points = [],
                         ortho_previous_node_column = [], uniform_region_x = [],
                         g_sweep_nodes = None, g_z_group_recorder = None,
                         common_z_group_element = [], z_group_to_ele = [], x_group_to_ele = [],
                         node_width_z_dict = [], node_connect_z_dict = [],
                         node_width_x_dict = [], node_connect_x_dict = [],
                         grid_number_dict = [], grid_vicinity_dict = []\<rparr> in
                      Inr (M0\<lparr>sweeping_nodes :=
                                 (if a_orthogonal a then rotate_sweep_nodes M0 (zt / 180 * pi)
                                  else node_list start_line)\<rparr>)))
               | other \<Rightarrow> Inl TypeError)))))"

text \<open>The whole constructor: initialisation, one meshing algorithm, the post-pass.\<close>

definition Mesh_construct :: "static_module \<Rightarrow> Mesh_args \<Rightarrow> py_error + Mesh" where
  "Mesh_construct S a =
     bind_err (Mesh_init S a) (\<lambda>M0.
     bind_err (if orthogonal M0 then orthogonal_meshing S M0
               else if \<not> curve M0 then fixed_sweep_node_meshing S M0
               else Inr M0) (\<lambda>M1.
       identify_member_groups M1))"

section \<open>Example arguments\<close>

text \<open>
  The constructor arguments of the scenario of the specification: a deck 10 long and 7
  wide with 5 transverse and 7 longitudinal lines, no skew, fixed-sweep meshing, every
  optional argument at its default. \<^verbatim>\<open>trans_dim\<close> and \<^verbatim>\<open>edge_width\<close> have no default
  and stay parameters.
\<close>

definition origin_point :: Point where
  "origin_point = \<lparr>pt_x = 0, pt_y = 0, pt_z = 0\<rparr>"

definition scenario_args :: "real \<Rightarrow> real \<Rightarrow> Mesh_args" where
  "scenario_args trans_dim' edge_width' =
     \<lparr>a_long_dim = 10, a_width = 7, a_trans_dim = trans_dim', a_edge_width = edge_width',
      a_num_trans_beam = 5, a_num_long_beam = 7, a_skew_1 = 0, a_skew_2 = 0,
      a_orthogonal = False, a_pt1 = origin_point, a_pt2 = origin_point, a_pt3 = None,
      a_element_counter = 1, a_node_counter = 1, a_transform_counter = 0,
      a_global_x_grid_count = 0, a_global_edge_count = 0, a_mesh_origin = (0, 0, 0),
      a_quad_ele = False\<rparr>"

text \<open>
  A small deck for concrete runs: \<open>nt\<close> transverse and \<open>nl\<close> longitudinal lines over a
  deck of the given length and width, the two skew angles, and the mesh type.
\<close>

definition small_args :: "real \<Rightarrow> real \<Rightarrow> real \<Rightarrow> nat \<Rightarrow> nat \<Rightarrow> real \<Rightarrow> real \<Rightarrow> bool \<Rightarrow> Mesh_args" where
  "small_args long_dim' width' edge_width' nt nl skew_1' skew_2' orthogonal' =
     \<lparr>a_long_dim = long_dim', a_width = width', a_trans_dim = width',
      a_edge_width = edge_width', a_num_trans_beam = nt, a_num_long_beam = nl,
      a_skew_1 = skew_1', a_skew_2 = skew_2', a_orthogonal = orthogonal',
      a_pt1 = origin_point, a_pt2 = origin_point, a_pt3 = None,
      a_element_counter = 1, a_node_counter = 1, a_transform_counter = 0,
      a_global_x_grid_count = 0, a_global_edge_count = 0, a_mesh_origin = (0, 0, 0),
      a_quad_ele = False\<rparr>"

section \<open>Derived notions used in the statements\<close>

text \<open>All elements of a mesh, and the registry key of an element: the rounded vector
  between the coordinates that \<^verbatim>\<open>node_spec\<close> holds for its two nodes.\<close>

definition all_elements :: "Mesh \<Rightarrow> Element list" where
  "all_elements M = long_ele M @ trans_ele M @ edge_span_ele M"

definition node_tags :: "Mesh \<Rightarrow> nat list" where
  "node_tags M = map fst (node_spec M)"

definition key_of ::
    "(nat \<times> Node) list \<Rightarrow> nat \<Rightarrow> nat \<Rightarrow> nat \<Rightarrow> vxz_key option" where
  "key_of ns decimals a b =
     (case map_of ns a of
        None \<Rightarrow> None
      | Some na \<Rightarrow>
          (case map_of ns b of
             None \<Rightarrow> None
           | Some nb \<Rightarrow> Some (rounded_vxz decimals (coordinate na) (coordinate nb))))"

definition element_key :: "Mesh \<Rightarrow> Element \<Rightarrow> vxz_key option" where
  "element_key M e = key_of (node_spec M) (decimal_lim M) (node_i e) (node_j e)"

text \<open>
  The invariant of the construction, for a start value \<open>n0\<close> of the node counter, a
  start value \<open>t0\<close> of the transform counter and the rounding precision \<open>dl\<close>: the keys
  of \<^verbatim>\<open>node_spec\<close> are \<open>n0, \<dots>, node_counter - 1\<close> in order and every node carries its
  key as tag; the registry holds distinct keys with the values \<open>t0 + 1, \<dots>,
  transform_counter\<close> in order; every element joins two different existing nodes and
  carries the registry value of its key; the lists of node tags the algorithms keep hold
  existing tags only.
\<close>

definition element_ok ::
    "(nat \<times> Node) list \<Rightarrow> (vxz_key \<times> nat) list \<Rightarrow> nat \<Rightarrow> Element \<Rightarrow> bool" where
  "element_ok ns td dl e =
     (node_i e \<noteq> node_j e \<and>
      (case key_of ns dl (node_i e) (node_j e) of
         None \<Rightarrow> False
       | Some k \<Rightarrow> map_of td k = Some (transform_tag e)))"

definition tags_in_range :: "nat \<Rightarrow> Mesh \<Rightarrow> nat list \<Rightarrow> bool" where
  "tags_in_range n0 M xs = list_all (\<lambda>t. n0 \<le> t \<and> t < node_counter M) xs"

definition mesh_inv :: "nat \<Rightarrow> nat \<Rightarrow> nat \<Rightarrow> Mesh \<Rightarrow> bool" where
  "mesh_inv n0 t0 dl M =
     (decimal_lim M = dl \<and> n0 \<le> node_counter M \<and>
      map fst (node_spec M) = [n0..<node_counter M] \<and>
      list_all (\<lambda>p. tag (snd p) = fst p) (node_spec M) \<and>
      t0 \<le> transform_counter M \<and>
      map snd (transform_dict M) = [t0 + 1..<transform_counter M + 1] \<and>
      distinct (map fst (transform_dict M)) \<and>
      list_all (element_ok (node_spec M) (transform_dict M) dl) (all_elements M) \<and>
      tags_in_range n0 M (assigned_node_tag M) \<and>
      tags_in_range n0 M (previous_node_tag M) \<and>
      tags_in_range n0 M (first_connecting_region_nodes M) \<and>
      tags_in_range n0 M (end_connecting_region_nodes M))"

text \<open>What a step may leave untouched: the nodes and the lists of node tags.\<close>

definition same_tags :: "Mesh \<Rightarrow> Mesh \<Rightarrow> bool" where
  "same_tags M M' =
     (node_spec M' = node_spec M \<and> node_counter M' = node_counter M \<and>
      assigned_node_tag M' = assigned_node_tag M \<and>
      previous_node_tag M' = previous_node_tag M \<and>
      first_connecting_region_nodes M' = first_connecting_region_nodes M \<and>
      end_connecting_region_nodes M' = end_connecting_region_nodes M)"

section \<open>Basic facts\<close>

lemma bind_err_simps [simp]:
  "bind_err (Inl e) f = Inl e"
  "bind_err (Inr v) f = f v"
  by (simp_all add: bind_err_def)

lemma bind_err_weak_cong: "r = r' \<Longrightarrow> bind_err r f = bind_err r' f"
  by simp

lemma bind_err_Inr_iff:
  "bind_err r f = Inr y \<longleftrightarrow> (\<exists>v. r = Inr v \<and> f v = Inr y)"
  by (cases r) auto

lemma static_spec_sel [simp]:
  "findCircle static_spec = findCircle_spec"
  "line_func static_spec = line_func_spec"
  "find_min_x_dist static_spec = find_min_x_dist_spec"
  "get_slope static_spec = get_slope_spec"
  "select_segment_function static_spec = select_segment_function_spec"
  by (simp_all add: static_spec_def)

lemma rint_of_int [simp]: "rint (of_int n) = n"
  by (simp add: rint_def)

lemma rint_numeral [simp]:
  "rint 0 = 0" "rint 1 = 1" "rint (numeral n) = numeral n" "rint (- numeral n) = - numeral n"
  by (simp_all add: rint_def)

lemma rint_minus_one [simp]: "rint (- 1) = - 1"
  using rint_of_int[of "- 1"] by simp


section \<open>The normal-projection search\<close>

declare search_loop.simps [simp del]







section \<open>Looking a coordinate up on an edge line\<close>

lemma list_index_first:
  "v \<in> set xs \<Longrightarrow>
   \<exists>i. list_index xs v = Inr i \<and> i < length xs \<and> xs ! i = v \<and> (\<forall>j<i. xs ! j \<noteq> v)"
proof (induction xs)
  case Nil
  then show ?case by simp
next
  case (Cons a xs)
  show ?case
  proof (cases "a = v")
    case True
    then show ?thesis by simp
  next
    case False
    with Cons obtain i where
      i: "list_index xs v = Inr i" "i < length xs" "xs ! i = v" "\<forall>j<i. xs ! j \<noteq> v"
      by auto
    have "\<forall>j<Suc i. (a # xs) ! j \<noteq> v"
      using False i(4) by (auto simp: less_Suc_eq_0_disj)
    with False i show ?thesis by auto
  qed
qed

lemma list_index_absent: "v \<notin> set xs \<Longrightarrow> list_index xs v = Inl ValueError"
  by (induction xs) auto

text \<open>
  C8, as the code has it. \<^verbatim>\<open>get_node_group_z\<close> returns the first position whose entry
  equals the coordinate; when no entry equals it, the failure is the \<^verbatim>\<open>ValueError\<close> that
  \<^verbatim>\<open>list.index\<close> raises, and no error of the method's own.
\<close>

theorem get_node_group_z_first_index:
  "(coordinate' \<in> set (node_list ecl) \<longrightarrow>
      (\<exists>i. get_node_group_z ecl coordinate' = Inr i \<and> i < length (node_list ecl) \<and>
           node_list ecl ! i = coordinate' \<and> (\<forall>j<i. node_list ecl ! j \<noteq> coordinate'))) \<and>
   (coordinate' \<notin> set (node_list ecl) \<longrightarrow> get_node_group_z ecl coordinate' = Inl ValueError)"
  unfolding get_node_group_z_def using list_index_first list_index_absent by metis

lemma edge_line_small:
  "EdgeConstructionLine_init (0, 0, 0) 7 1 0 2 0 =
   Inr \<lparr>edge_ref_point = (0, 0, 0), width_z = 7, edge_width_z = 1, ecl_num_long_beam = 2,
         edge_angle = 0, ecl_noz = [0, 7], node_list = [(0, 0, 0), (0, 0, 7)],
         ecl_z_group = [0, 1]\<rparr>"
  by (simp add: EdgeConstructionLine_init_def linspace_def cx_def cy_def cz_def upt_rec)

theorem get_node_group_z_first_index_witness:
  "case EdgeConstructionLine_init (0, 0, 0) 7 1 0 2 0 of
     Inl e \<Rightarrow> False
   | Inr ecl \<Rightarrow>
       (0, 0, 7) \<in> set (node_list ecl) \<and> get_node_group_z ecl (0, 0, 7) = Inr 1 \<and>
       (1, 0, 0) \<notin> set (node_list ecl) \<and> get_node_group_z ecl (1, 0, 0) = Inl ValueError"
proof -
  let ?e = "\<lparr>edge_ref_point = (0, 0, 0), width_z = 7, edge_width_z = 1, ecl_num_long_beam = 2,
         edge_angle = 0, ecl_noz = [0, 7], node_list = [(0, 0, 0), (0, 0, 7)],
         ecl_z_group = [0, 1]\<rparr>"
  have a: "get_node_group_z ?e (1, 0, 0) = Inl ValueError"
    using get_node_group_z_first_index[of "(1, 0, 0)" ?e] by simp
  obtain i where i: "get_node_group_z ?e (0, 0, 7) = Inr i" "i < 2"
      "[(0, 0, 0), (0, 0, 7::real)] ! i = (0::real, 0::real, 7::real)"
    using get_node_group_z_first_index[of "(0, 0, 7)" ?e] by auto
  have "i = 1"
    using i(2,3) by (cases i) auto
  with a i show ?thesis
    by (simp add: edge_line_small)
qed

text \<open>
  The claim as stated asks for a dedicated coordinate-not-found error: on an edge line of
  two nodes a coordinate off the line fails with the \<^verbatim>\<open>ValueError\<close> of \<^verbatim>\<open>list.index\<close>.
\<close>

theorem get_node_group_z_missing_counterexample:
  "case EdgeConstructionLine_init (0, 0, 0) 7 1 0 2 0 of
     Inl e \<Rightarrow> False
   | Inr ecl \<Rightarrow> get_node_group_z ecl (1, 0, 0) = Inl ValueError"
  by (simp add: edge_line_small get_node_group_z_def)

section \<open>The sweep path\<close>

text \<open>
  C4. With the three arc points \<open>(0, 0)\<close>, \<open>(1, 1)\<close>, \<open>(2, 2)\<close> on one line,
  \<^verbatim>\<open>get_sweep_line_properties\<close> raises nothing: it returns an exception object as its
  value and leaves the path as it was; the constructor of the mesh then fails with
  \<^verbatim>\<open>TypeError\<close> when it unpacks that value.
\<close>

theorem collinear_arc_returns_exception_object:
  "get_sweep_line_properties static_spec
     (SweepPath_init origin_point \<lparr>pt_x = 1, pt_y = 0, pt_z = 1\<rparr>
        (Some \<lparr>pt_x = 2, pt_y = 0, pt_z = 2\<rparr>)) =
   Inr (ExceptionValue ''Zero div error. Point 3 not valid to construct curve line'',
        SweepPath_init origin_point \<lparr>pt_x = 1, pt_y = 0, pt_z = 1\<rparr>
          (Some \<lparr>pt_x = 2, pt_y = 0, pt_z = 2\<rparr>)) \<and>
   Mesh_init static_spec
     ((small_args 4 1 0 2 2 0 0 False)
        \<lparr>a_pt2 := \<lparr>pt_x = 1, pt_y = 0, pt_z = 1\<rparr>,
         a_pt3 := Some \<lparr>pt_x = 2, pt_y = 0, pt_z = 2\<rparr>\<rparr>) = Inl TypeError"
  by (simp add: Mesh_init_def small_args_def get_sweep_line_properties_def findCircle_spec_def
      SweepPath_init_def origin_point_def)

lemma get_line_function_curve: "curve_path sp \<Longrightarrow> get_line_function S sp x = Inr None"
  by (simp add: get_line_function_def)

text \<open>
  C9. For the arc through \<open>(0, 0)\<close>, \<open>(2, 0)\<close>, \<open>(1, 1)\<close> the circle fit succeeds and
  marks the path as curved; \<^verbatim>\<open>get_line_function\<close> then returns \<^verbatim>\<open>None\<close> at every
  position, and the constructor of the mesh fails with \<^verbatim>\<open>TypeError\<close>.
\<close>

theorem arc_get_line_function_returns_None:
  "(case get_sweep_line_properties static_spec
           (SweepPath_init origin_point \<lparr>pt_x = 2, pt_y = 0, pt_z = 0\<rparr>
              (Some \<lparr>pt_x = 1, pt_y = 0, pt_z = 1\<rparr>)) of
      Inl e \<Rightarrow> False
    | Inr (ret, sp) \<Rightarrow>
        ret = Properties (Some 0) None 0 \<and> sp_d sp = Some ((1, 0), 1) \<and> curve_path sp \<and>
        get_line_function static_spec sp x = Inr None) \<and>
   Mesh_init static_spec
     ((small_args 4 1 0 2 2 0 0 False)
        \<lparr>a_pt2 := \<lparr>pt_x = 2, pt_y = 0, pt_z = 0\<rparr>,
         a_pt3 := Some \<lparr>pt_x = 1, pt_y = 0, pt_z = 1\<rparr>\<rparr>) = Inl TypeError"
  by (simp add: Mesh_init_def small_args_def get_sweep_line_properties_def findCircle_spec_def
      SweepPath_init_def origin_point_def get_line_function_def EdgeConstructionLine_init_def
      Let_def)

section \<open>The slices of the search branch\<close>



section \<open>Invariant: nodes and the transform registry\<close>

text \<open>The keys of \<^verbatim>\<open>node_spec\<close> and the values of the registry grow in order.\<close>

lemma map_of_append_Some: "map_of xs k = Some v \<Longrightarrow> map_of (xs @ ys) k = Some v"
  by (simp add: map_add_Some_iff)

lemma key_of_append:
  "key_of ns dl a b = Some k \<Longrightarrow> key_of (ns @ ns') dl a b = Some k"
  by (auto simp: key_of_def map_of_append_Some split: option.splits)

lemma element_ok_append:
  "element_ok ns td dl e \<Longrightarrow> element_ok (ns @ ns') (td @ td') dl e"
  by (auto simp: element_ok_def key_of_append map_of_append_Some split: option.splits)

lemma element_ok_append_nodes:
  "element_ok ns td dl e \<Longrightarrow> element_ok (ns @ ns') td dl e"
  using element_ok_append[of ns td dl e ns' "[]"] by simp

lemma element_ok_append_dict:
  "element_ok ns td dl e \<Longrightarrow> element_ok ns (td @ td') dl e"
  using element_ok_append[of ns td dl e "[]" td'] by simp

lemma key_of_Some_iff:
  "(\<exists>k. key_of ns dl a b = Some k) \<longleftrightarrow> a \<in> fst ` set ns \<and> b \<in> fst ` set ns"
  by (auto simp: key_of_def map_of_eq_None_iff split: option.splits)
     (metis map_of_eq_None_iff not_Some_eq)+

lemma tags_in_range_mono:
  "tags_in_range n0 M xs \<Longrightarrow> node_counter M \<le> node_counter M' \<Longrightarrow> tags_in_range n0 M' xs"
  by (auto simp: tags_in_range_def list_all_iff)

lemma tags_in_range_Nil [simp]: "tags_in_range n0 M []"
  by (simp add: tags_in_range_def)

lemma tags_in_range_upt:
  "n0 \<le> c0 \<Longrightarrow> c1 \<le> node_counter M \<Longrightarrow> tags_in_range n0 M [c0..<c1]"
  by (auto simp: tags_in_range_def list_all_iff)

text \<open>place_node\<close>

lemma place_node_fields [simp]:
  "node_counter (place_node M c xg zg) = Suc (node_counter M)"
  "assigned_node_tag (place_node M c xg zg) = assigned_node_tag M @ [node_counter M]"
  "previous_node_tag (place_node M c xg zg) = previous_node_tag M"
  "first_connecting_region_nodes (place_node M c xg zg) = first_connecting_region_nodes M"
  "end_connecting_region_nodes (place_node M c xg zg) = end_connecting_region_nodes M"
  "decimal_lim (place_node M c xg zg) = decimal_lim M"
  "transform_dict (place_node M c xg zg) = transform_dict M"
  "transform_counter (place_node M c xg zg) = transform_counter M"
  "all_elements (place_node M c xg zg) = all_elements M"
  "noz (place_node M c xg zg) = noz M"
  by (simp_all add: place_node_def Let_def all_elements_def)

lemma place_node_node_spec:
  "map fst (node_spec M) = [n0..<node_counter M] \<Longrightarrow>
   node_spec (place_node M c xg zg) =
     node_spec M @ [(node_counter M,
        \<lparr>tag = node_counter M, coordinate = c, x_group = xg, z_group = zg\<rparr>)]"
proof -
  assume a: "map fst (node_spec M) = [n0..<node_counter M]"
  have "node_counter M \<notin> fst ` set (node_spec M)"
    using a by (metis atLeastLessThan_iff less_irrefl list.set_map set_upt)
  then have "map_of (node_spec M) (node_counter M) = None"
    by (simp add: map_of_eq_None_iff)
  then show ?thesis
    by (simp add: place_node_def Let_def setdefault_def)
qed

lemma place_node_inv:
  assumes "mesh_inv n0 t0 dl M"
  shows "mesh_inv n0 t0 dl (place_node M c xg zg)"
proof -
  have ks: "map fst (node_spec M) = [n0..<node_counter M]" and le: "n0 \<le> node_counter M"
    using assms by (simp_all add: mesh_inv_def)
  note ns = place_node_node_spec[OF ks, of c xg zg]
  have r: "\<And>xs. tags_in_range n0 M xs \<Longrightarrow> tags_in_range n0 (place_node M c xg zg) xs"
    by (erule tags_in_range_mono) simp
  have a: "tags_in_range n0 (place_node M c xg zg) [node_counter M]"
    using le by (simp add: tags_in_range_def)
  show ?thesis
    using assms le r a
    by (auto simp: mesh_inv_def ns list_all_iff element_ok_append_nodes tags_in_range_def)
qed


text \<open>registry\<close>

lemma setdefault_registry:
  fixes td :: "('k \<times> nat) list"
  assumes "t0 \<le> tc" and "map snd td = [t0 + 1..<tc + 1]" and "distinct (map fst td)"
    and r: "r = setdefault td k (tc + 1)"
    and tc': "tc' = (if tc < fst r then fst r else tc)"
  shows "map_of (snd r) k = Some (fst r) \<and> (\<exists>td'. snd r = td @ td') \<and>
         map snd (snd r) = [t0 + 1..<tc' + 1] \<and> distinct (map fst (snd r)) \<and> t0 \<le> tc'"
proof (cases "map_of td k")
  case None
  then have r': "r = (tc + 1, td @ [(k, tc + 1)])"
    by (simp add: r setdefault_def)
  have k: "k \<notin> fst ` set td"
    using None by (simp add: map_of_eq_None_iff)
  have c: "tc' = tc + 1"
    by (simp add: tc' r')
  have 1: "map_of (snd r) k = Some (fst r)"
    by (simp add: r' map_add_def None)
  have 2: "map snd (snd r) = [t0 + 1..<tc' + 1]"
    using assms(1,2) by (simp add: r' c)
  have 3: "distinct (map fst (snd r))"
    using assms(3) k by (simp add: r')
  show ?thesis
    using 1 2 3 assms(1) by (simp add: c) (simp add: r')
next
  case (Some v)
  then have r': "r = (v, td)"
    by (simp add: r setdefault_def)
  have "v \<in> set (map snd td)"
    using Some by (metis map_of_SomeD set_zip_rightD zip_map_fst_snd)
  then have "v \<le> tc"
    unfolding assms(2) by auto
  then have c: "tc' = tc"
    by (simp add: tc' r')
  show ?thesis
    using assms(1-3) Some by (simp add: r' c)
qed

lemma gtt_form:
  assumes "get_geo_transform_tag M a b = Inr (tg, M')"
  shows "\<exists>na nb. map_of (node_spec M) a = Some na \<and> map_of (node_spec M) b = Some nb \<and>
           tg = fst (setdefault (transform_dict M)
                      (rounded_vxz (decimal_lim M) (coordinate na) (coordinate nb))
                      (transform_counter M + 1)) \<and>
           M' = M\<lparr>transform_dict :=
                     snd (setdefault (transform_dict M)
                      (rounded_vxz (decimal_lim M) (coordinate na) (coordinate nb))
                      (transform_counter M + 1)),
                   transform_counter :=
                     (if transform_counter M < tg then tg else transform_counter M)\<rparr>"
  using assms
  by (auto simp: get_geo_transform_tag_def getitem_def Let_def bind_err_def
           split: option.splits sum.splits if_splits)

lemma gtt_inv:
  assumes g: "get_geo_transform_tag M a b = Inr (tg, M')" and inv: "mesh_inv n0 t0 dl M"
  shows "mesh_inv n0 t0 dl M' \<and> same_tags M M' \<and>
         long_ele M' = long_ele M \<and> trans_ele M' = trans_ele M \<and>
         edge_span_ele M' = edge_span_ele M \<and> element_counter M' = element_counter M \<and>
         (a \<noteq> b \<longrightarrow> element_ok (node_spec M') (transform_dict M') dl
            \<lparr>ele_tag = et, node_i = a, node_j = b, group_index = gi, transform_tag = tg\<rparr>)"
proof -
  from gtt_form[OF g] obtain na nb where
    na: "map_of (node_spec M) a = Some na" and nb: "map_of (node_spec M) b = Some nb" and
    tg: "tg = fst (setdefault (transform_dict M)
                      (rounded_vxz (decimal_lim M) (coordinate na) (coordinate nb))
                      (transform_counter M + 1))" and
    M': "M' = M\<lparr>transform_dict :=
                     snd (setdefault (transform_dict M)
                      (rounded_vxz (decimal_lim M) (coordinate na) (coordinate nb))
                      (transform_counter M + 1)),
                   transform_counter :=
                     (if transform_counter M < tg then tg else transform_counter M)\<rparr>"
    by blast
  define k where "k = rounded_vxz (decimal_lim M) (coordinate na) (coordinate nb)"
  define r where "r = setdefault (transform_dict M) k (transform_counter M + 1)"
  define tc' where "tc' = (if transform_counter M < fst r then fst r else transform_counter M)"
  have tg': "tg = fst r"
    by (simp add: tg r_def k_def)
  have dl: "decimal_lim M = dl" and t: "t0 \<le> transform_counter M"
    "map snd (transform_dict M) = [t0 + 1..<transform_counter M + 1]"
    "distinct (map fst (transform_dict M))"
    using inv by (simp_all add: mesh_inv_def)
  have regs: "map_of (snd r) k = Some (fst r) \<and> (\<exists>td'. snd r = transform_dict M @ td') \<and>
         map snd (snd r) = [t0 + 1..<tc' + 1] \<and> distinct (map fst (snd r)) \<and> t0 \<le> tc'"
    by (rule setdefault_registry[OF t r_def tc'_def])
  then obtain td' where td': "snd r = transform_dict M @ td'"
    by blast
  have f: "transform_dict M' = snd r" "transform_counter M' = tc'" "node_spec M' = node_spec M"
    "node_counter M' = node_counter M" "decimal_lim M' = decimal_lim M"
    "assigned_node_tag M' = assigned_node_tag M" "previous_node_tag M' = previous_node_tag M"
    "first_connecting_region_nodes M' = first_connecting_region_nodes M"
    "end_connecting_region_nodes M' = end_connecting_region_nodes M"
    "long_ele M' = long_ele M" "trans_ele M' = trans_ele M" "edge_span_ele M' = edge_span_ele M"
    "element_counter M' = element_counter M"
    by (simp_all add: M' r_def k_def tc'_def tg')
  have same: "same_tags M M'"
    by (simp add: same_tags_def f)
  have el: "all_elements M' = all_elements M"
    by (simp add: all_elements_def f)
  have ok: "list_all (element_ok (node_spec M') (transform_dict M') dl) (all_elements M')"
    using inv by (auto simp: el f td' mesh_inv_def list_all_iff element_ok_append_dict)
  have rg: "\<And>xs. tags_in_range n0 M' xs = tags_in_range n0 M xs"
    by (simp add: tags_in_range_def f)
  have inv': "mesh_inv n0 t0 dl M'"
    unfolding mesh_inv_def rg
    using inv regs ok by (simp add: f mesh_inv_def)
  have key: "key_of (node_spec M') dl a b = Some k"
    by (simp add: key_of_def f na nb k_def dl)
  have "map_of (transform_dict M') k = Some tg"
    using regs by (simp add: f tg')
  with key have "a \<noteq> b \<longrightarrow> element_ok (node_spec M') (transform_dict M') dl
            \<lparr>ele_tag = et, node_i = a, node_j = b, group_index = gi, transform_tag = tg\<rparr>"
    by (simp add: element_ok_def)
  with inv' same show ?thesis
    by (simp add: f)
qed

lemma gtt_keys:
  assumes "get_geo_transform_tag M a b = Inr (tg, M')"
  shows "a \<in> fst ` set (node_spec M)" "b \<in> fst ` set (node_spec M)"
  using gtt_form[OF assms] by (auto dest: map_of_SomeD intro: rev_image_eqI)

section \<open>Invariant: members of one column\<close>

text \<open>Every member joins two different existing nodes and carries the value the registry holds for its key.\<close>

lemma same_tags_refl [simp]: "same_tags M M"
  by (simp add: same_tags_def)

lemma same_tags_trans: "same_tags M M1 \<Longrightarrow> same_tags M1 M2 \<Longrightarrow> same_tags M M2"
  by (simp add: same_tags_def)

lemma same_tags_fields:
  assumes "same_tags M M'"
  shows "node_spec M' = node_spec M" "node_counter M' = node_counter M"
    "assigned_node_tag M' = assigned_node_tag M" "previous_node_tag M' = previous_node_tag M"
    "first_connecting_region_nodes M' = first_connecting_region_nodes M"
    "end_connecting_region_nodes M' = end_connecting_region_nodes M"
  using assms by (simp_all add: same_tags_def)

text \<open>Fields the invariant does not read.\<close>

lemma mesh_inv_irrelevant [simp]:
  "mesh_inv n0 t0 dl (M\<lparr>edge_node_recorder := a1\<rparr>) = mesh_inv n0 t0 dl M"
  "mesh_inv n0 t0 dl (M\<lparr>global_x_grid_count := a2\<rparr>) = mesh_inv n0 t0 dl M"
  "mesh_inv n0 t0 dl (M\<lparr>global_edge_count := a3\<rparr>) = mesh_inv n0 t0 dl M"
  "mesh_inv n0 t0 dl (M\<lparr>sweep_path_points := a4\<rparr>) = mesh_inv n0 t0 dl M"
  "mesh_inv n0 t0 dl (M\<lparr>ortho_previous_node_column := a5\<rparr>) = mesh_inv n0 t0 dl M"
  "mesh_inv n0 t0 dl (M\<lparr>uniform_region_x := a6\<rparr>) = mesh_inv n0 t0 dl M"
  "mesh_inv n0 t0 dl (M\<lparr>g_sweep_nodes := a7\<rparr>) = mesh_inv n0 t0 dl M"
  "mesh_inv n0 t0 dl (M\<lparr>g_z_group_recorder := a8\<rparr>) = mesh_inv n0 t0 dl M"
  "mesh_inv n0 t0 dl (M\<lparr>element_counter := a9\<rparr>) = mesh_inv n0 t0 dl M"
  by (simp_all add: mesh_inv_def all_elements_def tags_in_range_def)

lemma same_tags_irrelevant [simp]:
  "same_tags M (M'\<lparr>edge_node_recorder := a1\<rparr>) = same_tags M M'"
  "same_tags M (M'\<lparr>global_x_grid_count := a2\<rparr>) = same_tags M M'"
  "same_tags M (M'\<lparr>global_edge_count := a3\<rparr>) = same_tags M M'"
  "same_tags M (M'\<lparr>sweep_path_points := a4\<rparr>) = same_tags M M'"
  "same_tags M (M'\<lparr>ortho_previous_node_column := a5\<rparr>) = same_tags M M'"
  "same_tags M (M'\<lparr>uniform_region_x := a6\<rparr>) = same_tags M M'"
  "same_tags M (M'\<lparr>g_sweep_nodes := a7\<rparr>) = same_tags M M'"
  "same_tags M (M'\<lparr>g_z_group_recorder := a8\<rparr>) = same_tags M M'"
  "same_tags M (M'\<lparr>element_counter := a9\<rparr>) = same_tags M M'"
  "same_tags M (M'\<lparr>long_ele := b1\<rparr>) = same_tags M M'"
  "same_tags M (M'\<lparr>trans_ele := b2\<rparr>) = same_tags M M'"
  "same_tags M (M'\<lparr>edge_span_ele := b3\<rparr>) = same_tags M M'"
  by (simp_all add: same_tags_def)

lemma mesh_inv_tag_lists:
  assumes "mesh_inv n0 t0 dl M"
  shows "tags_in_range n0 M xs \<Longrightarrow> mesh_inv n0 t0 dl (M\<lparr>assigned_node_tag := xs\<rparr>)"
    and "tags_in_range n0 M xs \<Longrightarrow> mesh_inv n0 t0 dl (M\<lparr>previous_node_tag := xs\<rparr>)"
    and "tags_in_range n0 M xs \<Longrightarrow> mesh_inv n0 t0 dl (M\<lparr>first_connecting_region_nodes := xs\<rparr>)"
    and "tags_in_range n0 M xs \<Longrightarrow> mesh_inv n0 t0 dl (M\<lparr>end_connecting_region_nodes := xs\<rparr>)"
  using assms by (simp_all add: mesh_inv_def all_elements_def tags_in_range_def)

lemma mesh_inv_ranges:
  assumes "mesh_inv n0 t0 dl M"
  shows "tags_in_range n0 M (assigned_node_tag M)" "tags_in_range n0 M (previous_node_tag M)"
    "tags_in_range n0 M (first_connecting_region_nodes M)"
    "tags_in_range n0 M (end_connecting_region_nodes M)"
  using assms by (simp_all add: mesh_inv_def)

text \<open>Appending an element that is in order.\<close>

lemma add_element:
  assumes "mesh_inv n0 t0 dl M" and "element_ok (node_spec M) (transform_dict M) dl e"
  shows "mesh_inv n0 t0 dl (M\<lparr>long_ele := long_ele M @ [e]\<rparr>)"
    and "mesh_inv n0 t0 dl (M\<lparr>trans_ele := trans_ele M @ [e]\<rparr>)"
    and "mesh_inv n0 t0 dl (M\<lparr>edge_span_ele := edge_span_ele M @ [e]\<rparr>)"
  using assms by (simp_all add: mesh_inv_def all_elements_def tags_in_range_def)

lemma gtt_add:
  assumes g: "get_geo_transform_tag M a b = Inr (tg, M1)" and inv: "mesh_inv n0 t0 dl M"
    and ne: "a \<noteq> b"
  defines "e \<equiv> \<lambda>et gi. \<lparr>ele_tag = et, node_i = a, node_j = b, group_index = gi, transform_tag = tg\<rparr>"
  shows "mesh_inv n0 t0 dl (M1\<lparr>long_ele := long_ele M1 @ [e et gi], element_counter := c\<rparr>) \<and>
         same_tags M (M1\<lparr>long_ele := long_ele M1 @ [e et gi], element_counter := c\<rparr>)"
    and "mesh_inv n0 t0 dl (M1\<lparr>trans_ele := trans_ele M1 @ [e et gi], element_counter := c\<rparr>) \<and>
         same_tags M (M1\<lparr>trans_ele := trans_ele M1 @ [e et gi], element_counter := c\<rparr>)"
    and "mesh_inv n0 t0 dl (M1\<lparr>edge_span_ele := edge_span_ele M1 @ [e et gi], element_counter := c\<rparr>) \<and>
         same_tags M (M1\<lparr>edge_span_ele := edge_span_ele M1 @ [e et gi], element_counter := c\<rparr>)"
proof -
  from gtt_inv[OF g inv, of et gi] ne have i1: "mesh_inv n0 t0 dl M1" and s: "same_tags M M1"
    and ok: "element_ok (node_spec M1) (transform_dict M1) dl (e et gi)"
    by (simp_all add: e_def)
  show "mesh_inv n0 t0 dl (M1\<lparr>long_ele := long_ele M1 @ [e et gi], element_counter := c\<rparr>) \<and>
         same_tags M (M1\<lparr>long_ele := long_ele M1 @ [e et gi], element_counter := c\<rparr>)"
    using add_element(1)[OF i1 ok] s by simp
  show "mesh_inv n0 t0 dl (M1\<lparr>trans_ele := trans_ele M1 @ [e et gi], element_counter := c\<rparr>) \<and>
         same_tags M (M1\<lparr>trans_ele := trans_ele M1 @ [e et gi], element_counter := c\<rparr>)"
    using add_element(2)[OF i1 ok] s by simp
  show "mesh_inv n0 t0 dl (M1\<lparr>edge_span_ele := edge_span_ele M1 @ [e et gi], element_counter := c\<rparr>) \<and>
         same_tags M (M1\<lparr>edge_span_ele := edge_span_ele M1 @ [e et gi], element_counter := c\<rparr>)"
    using add_element(3)[OF i1 ok] s by simp
qed

lemma assign_transverse_inv:
  assumes "assign_transverse_members M a b = Inr M'" and "mesh_inv n0 t0 dl M" and "a \<noteq> b"
  shows "mesh_inv n0 t0 dl M' \<and> same_tags M M'"
proof -
  from assms(1) obtain tg M1 where g: "get_geo_transform_tag M a b = Inr (tg, M1)"
    and M': "M' = M1\<lparr>trans_ele := trans_ele M1 @
                  [\<lparr>ele_tag = element_counter M1, node_i = a, node_j = b,
                    group_index = global_x_grid_count M1, transform_tag = tg\<rparr>],
               element_counter := element_counter M1 + 1\<rparr>"
    by (auto simp: assign_transverse_members_def bind_err_Inr_iff)
  show ?thesis
    unfolding M' by (rule gtt_add(2)[OF g assms(2,3)])
qed

lemma assign_longitudinal_inv:
  assumes "assign_longitudinal_members M a b zg = Inr M'" and "mesh_inv n0 t0 dl M" and "a \<noteq> b"
  shows "mesh_inv n0 t0 dl M' \<and> same_tags M M'"
proof -
  from assms(1) obtain tg M1 where g: "get_geo_transform_tag M a b = Inr (tg, M1)"
    and M': "M' = M1\<lparr>long_ele := long_ele M1 @
                  [\<lparr>ele_tag = element_counter M1, node_i = a, node_j = b,
                    group_index = zg, transform_tag = tg\<rparr>],
               element_counter := element_counter M1 + 1\<rparr>"
    by (auto simp: assign_longitudinal_members_def bind_err_Inr_iff)
  show ?thesis
    unfolding M' by (rule gtt_add(1)[OF g assms(2,3)])
qed

lemma assign_edge_inv:
  assumes "assign_edge_trans_members M a b ec = Inr M'" and "mesh_inv n0 t0 dl M" and "a \<noteq> b"
  shows "mesh_inv n0 t0 dl M' \<and> same_tags M M'"
proof -
  from assms(1) obtain tg M1 where g: "get_geo_transform_tag M a b = Inr (tg, M1)"
    and M': "M' = M1\<lparr>edge_span_ele := edge_span_ele M1 @
                  [\<lparr>ele_tag = element_counter M1, node_i = a, node_j = b,
                    group_index = ec, transform_tag = tg\<rparr>],
               element_counter := element_counter M1 + 1\<rparr>"
    by (auto simp: assign_edge_trans_members_def bind_err_Inr_iff)
  show ?thesis
    unfolding M' by (rule gtt_add(3)[OF g assms(2,3)])
qed

lemma list_getitem_Inr: "list_getitem xs i = Inr v \<longleftrightarrow> i < length xs \<and> v = xs ! i"
  by (auto simp: list_getitem_def)

lemma link_column_inv:
  assumes l: "link_column lk M z = Inr M'" and inv: "mesh_inv n0 t0 dl M"
    and d: "distinct (assigned_node_tag M)" and z: "0 < z"
  shows "mesh_inv n0 t0 dl M' \<and> same_tags M M'"
proof (cases lk)
  case (LinkFixed x_count)
  from l obtain tg M1 where i: "z < length (assigned_node_tag M)"
    and g: "get_geo_transform_tag M (assigned_node_tag M ! (z - 1)) (assigned_node_tag M ! z) = Inr (tg, M1)"
    and M': "M' = M1\<lparr>trans_ele := trans_ele M1 @
                       [\<lparr>ele_tag = element_counter M1, node_i = assigned_node_tag M ! (z - 1),
                         node_j = assigned_node_tag M ! z,
                         group_index = x_count, transform_tag = tg\<rparr>],
                    element_counter := element_counter M1 + 1\<rparr>"
    by (auto simp: LinkFixed link_column_def bind_err_Inr_iff list_getitem_Inr)
  have ne: "assigned_node_tag M ! (z - 1) \<noteq> assigned_node_tag M ! z"
    using d i z by (simp add: nth_eq_iff_index_eq)
  show ?thesis
    unfolding M' by (rule gtt_add(2)[OF g inv ne])
next
  case LinkTransverse
  from l have i: "z < length (assigned_node_tag M)"
    and g: "assign_transverse_members M (assigned_node_tag M ! (z - 1)) (assigned_node_tag M ! z) = Inr M'"
    by (auto simp: LinkTransverse link_column_def bind_err_Inr_iff list_getitem_Inr)
  have ne: "assigned_node_tag M ! (z - 1) \<noteq> assigned_node_tag M ! z"
    using d i z by (simp add: nth_eq_iff_index_eq)
  from assign_transverse_inv[OF g inv ne] show ?thesis .
next
  case LinkEdge
  show ?thesis
  proof (cases "1 \<le> length (assigned_node_tag M)")
    case False
    with l show ?thesis
      using inv by (simp add: LinkEdge link_column_def)
  next
    case True
    with l obtain M1 where i: "z < length (assigned_node_tag M)"
      and g: "assign_edge_trans_members M (assigned_node_tag M ! (z - 1)) (assigned_node_tag M ! z)
                 (global_edge_count M) = Inr M1"
      and M': "\<exists>r. M' = M1\<lparr>edge_node_recorder := r\<rparr>"
      by (auto simp: LinkEdge link_column_def bind_err_Inr_iff list_getitem_Inr Let_def)
    have ne: "assigned_node_tag M ! (z - 1) \<noteq> assigned_node_tag M ! z"
      using d i z by (simp add: nth_eq_iff_index_eq)
    from assign_edge_inv[OF g inv ne] M' show ?thesis
      by auto
  qed
qed

lemma set_region_inv:
  "mesh_inv n0 t0 dl M \<Longrightarrow> mesh_inv n0 t0 dl (set_region rg M)"
  by (cases rg) (auto simp: set_region_def mesh_inv_tag_lists mesh_inv_ranges)

lemma set_region_fields [simp]:
  "node_counter (set_region rg M) = node_counter M"
  "assigned_node_tag (set_region rg M) = assigned_node_tag M"
  "previous_node_tag (set_region rg M) = previous_node_tag M"
  "node_spec (set_region rg M) = node_spec M"
  "set_region NoRegion M = M"
  by (cases rg; simp add: set_region_def)+

lemma place_nodes_inv:
  assumes "place_nodes lk zs rg xi zi xg z nodes M = Inr M'" and "mesh_inv n0 t0 dl M"
    and "assigned_node_tag M = [c0..<node_counter M]" and "c0 \<le> node_counter M"
  shows "mesh_inv n0 t0 dl M' \<and> assigned_node_tag M' = [c0..<node_counter M'] \<and>
         node_counter M' = node_counter M + length nodes \<and>
         previous_node_tag M' = previous_node_tag M \<and>
         (rg = NoRegion \<longrightarrow> first_connecting_region_nodes M' = first_connecting_region_nodes M \<and>
            end_connecting_region_nodes M' = end_connecting_region_nodes M)"
  using assms
proof (induction nodes arbitrary: M z)
  case Nil
  then show ?case by simp
next
  case (Cons nd rest)
  from Cons.prems(1) obtain zg M2 where
    zg: "z_group_at zs M z = Inr zg" and
    l: "(if 0 < z then link_column lk (place_node M (cx nd + xi, cy nd, cz nd + zi) xg zg) z
         else Inr (place_node M (cx nd + xi, cy nd, cz nd + zi) xg zg)) = Inr M2" and
    r: "place_nodes lk zs rg xi zi xg (z + 1) rest (set_region rg M2) = Inr M'"
    by (auto simp: bind_err_Inr_iff Let_def)
  let ?M1 = "place_node M (cx nd + xi, cy nd, cz nd + zi) xg zg"
  have inv1: "mesh_inv n0 t0 dl ?M1"
    by (rule place_node_inv[OF Cons.prems(2)])
  have a1: "assigned_node_tag ?M1 = [c0..<node_counter ?M1]"
    using Cons.prems(3,4) by simp
  have M2: "mesh_inv n0 t0 dl M2 \<and> same_tags ?M1 M2"
  proof (cases "0 < z")
    case True
    with l have lc: "link_column lk ?M1 z = Inr M2" by simp
    have d: "distinct (assigned_node_tag ?M1)"
      unfolding a1 by simp
    from link_column_inv[OF lc inv1 d True] show ?thesis .
  next
    case False
    with l inv1 show ?thesis by auto
  qed
  then have inv2: "mesh_inv n0 t0 dl (set_region rg M2)"
    by (simp add: set_region_inv)
  have f2: "assigned_node_tag (set_region rg M2) = [c0..<node_counter (set_region rg M2)]"
    "c0 \<le> node_counter (set_region rg M2)"
    using M2 a1 Cons.prems(4) by (simp_all add: same_tags_def)
  from Cons.IH[OF r inv2 f2] M2 show ?case
    by (auto simp: same_tags_def)
qed

section \<open>Invariant: fixed-sweep meshing\<close>

lemma getitem_Inr: "getitem d k = Inr v \<longleftrightarrow> map_of d k = Some v"
  by (simp add: getitem_def split: option.splits)

lemma find_cur_node_inv:
  assumes "find_cur_node M pre cur = Inr M'" and "mesh_inv n0 t0 dl M" and "pre \<notin> set cur"
  shows "mesh_inv n0 t0 dl M' \<and> same_tags M M'"
  using assms
proof (induction cur)
  case Nil
  then show ?case by simp
next
  case (Cons c rest)
  from Cons.prems(1) have "(\<exists>zg. assign_longitudinal_members M pre c zg = Inr M') \<or>
      find_cur_node M pre rest = Inr M'"
    by (auto simp: bind_err_Inr_iff Let_def split: if_splits)
  then show ?case
  proof
    assume "\<exists>zg. assign_longitudinal_members M pre c zg = Inr M'"
    then obtain zg where a: "assign_longitudinal_members M pre c zg = Inr M'" by blast
    from Cons.prems(3) have "pre \<noteq> c" by auto
    from assign_longitudinal_inv[OF a Cons.prems(2) this] show ?thesis .
  next
    assume "find_cur_node M pre rest = Inr M'"
    from Cons.IH[OF this Cons.prems(2)] Cons.prems(3) show ?thesis by simp
  qed
qed

lemma link_longitudinal_inv:
  assumes "link_longitudinal M prev cur = Inr M'" and "mesh_inv n0 t0 dl M"
    and "set prev \<inter> set cur = {}"
  shows "mesh_inv n0 t0 dl M' \<and> same_tags M M'"
  using assms
proof (induction prev arbitrary: M)
  case Nil
  then show ?case by simp
next
  case (Cons p rest)
  from Cons.prems(1) obtain M1 where f: "find_cur_node M p cur = Inr M1"
    and r: "link_longitudinal M1 rest cur = Inr M'"
    by (auto simp: bind_err_Inr_iff)
  from Cons.prems(3) have p: "p \<notin> set cur" and d: "set rest \<inter> set cur = {}" by auto
  from find_cur_node_inv[OF f Cons.prems(2) p] have 1: "mesh_inv n0 t0 dl M1" "same_tags M M1"
    by simp_all
  from Cons.IH[OF r 1(1) d] 1(2) show ?case
    by (auto intro: same_tags_trans)
qed

lemma tags_in_range_disjoint:
  assumes "tags_in_range n0 M xs" and "node_counter M \<le> c0"
  shows "set xs \<inter> set [c0..<c1] = {}"
  using assms by (auto simp: tags_in_range_def list_all_iff)

lemma record_edge_nodes_inv [simp]:
  "mesh_inv n0 t0 dl (record_edge_nodes M tags) = mesh_inv n0 t0 dl M"
  by (simp add: record_edge_nodes_def)

lemma record_edge_nodes_fields [simp]:
  "node_counter (record_edge_nodes M tags) = node_counter M"
  "assigned_node_tag (record_edge_nodes M tags) = assigned_node_tag M"
  "previous_node_tag (record_edge_nodes M tags) = previous_node_tag M"
  by (simp_all add: record_edge_nodes_def)

lemma fixed_sweep_after_column_inv:
  assumes "fixed_sweep_after_column M x_count = Inr M'" and "mesh_inv n0 t0 dl M"
    and "set (previous_node_tag M) \<inter> set (assigned_node_tag M) = {}"
  shows "mesh_inv n0 t0 dl M' \<and> node_counter M' = node_counter M"
proof (cases "x_count = 0")
  case True
  with assms(1) have "M' = (record_edge_nodes (M\<lparr>previous_node_tag := assigned_node_tag M\<rparr>)
       (assigned_node_tag M))\<lparr>global_edge_count := global_edge_count M + 1\<rparr>"
    by (auto simp: fixed_sweep_after_column_def Let_def record_edge_nodes_def)
  then show ?thesis
    using assms(2) by (simp add: mesh_inv_tag_lists mesh_inv_ranges)
next
  case False
  with assms(1) obtain M1 where
    l: "link_longitudinal M (previous_node_tag M) (assigned_node_tag M) = Inr M1" and
    M': "M' = M1\<lparr>previous_node_tag := assigned_node_tag M1\<rparr> \<or>
         M' = (record_edge_nodes (M1\<lparr>previous_node_tag := assigned_node_tag M1\<rparr>)
                  (assigned_node_tag M1))
                \<lparr>global_edge_count := global_edge_count M1 + 1\<rparr>"
    by (auto simp: fixed_sweep_after_column_def Let_def bind_err_Inr_iff record_edge_nodes_def
             split: if_splits)
  from link_longitudinal_inv[OF l assms(2,3)] have 1: "mesh_inv n0 t0 dl M1" "same_tags M M1"
    by simp_all
  have 2: "mesh_inv n0 t0 dl (M1\<lparr>previous_node_tag := assigned_node_tag M1\<rparr>)"
    by (rule mesh_inv_tag_lists(2)[OF 1(1) mesh_inv_ranges(1)[OF 1(1)]])
  have 3: "node_counter M1 = node_counter M"
    by (rule same_tags_fields(2)[OF 1(2)])
  from M' show ?thesis
    using 2 3 by auto
qed

lemma fixed_sweep_columns_inv:
  assumes "fixed_sweep_columns S x_count xs M = Inr M'" and "mesh_inv n0 t0 dl M"
    and "assigned_node_tag M = []"
  shows "mesh_inv n0 t0 dl M'"
  using assms
proof (induction xs arbitrary: M x_count)
  case Nil
  then show ?case by simp
next
  case (Cons x rest)
  from Cons.prems(1) obtain zi M1 M2 where
    p: "place_nodes (LinkFixed x_count) FromIndex NoRegion x zi x_count 0 (sweeping_nodes M) M = Inr M1"
    and a: "fixed_sweep_after_column M1 x_count = Inr M2"
    and r: "fixed_sweep_columns S (x_count + 1) rest (M2\<lparr>assigned_node_tag := []\<rparr>) = Inr M'"
    by (auto simp: bind_err_Inr_iff Let_def)
  have a0: "assigned_node_tag M = [node_counter M..<node_counter M]"
    using Cons.prems(3) by simp
  from place_nodes_inv[OF p Cons.prems(2) a0] have
    1: "mesh_inv n0 t0 dl M1" "assigned_node_tag M1 = [node_counter M..<node_counter M1]"
       "previous_node_tag M1 = previous_node_tag M"
    by simp_all
  have d: "set (previous_node_tag M1) \<inter> set (assigned_node_tag M1) = {}"
    unfolding 1(2,3)
    by (rule tags_in_range_disjoint[OF mesh_inv_ranges(2)[OF Cons.prems(2)]]) simp
  from fixed_sweep_after_column_inv[OF a 1(1) d] have 2: "mesh_inv n0 t0 dl M2"
    by simp
  have "mesh_inv n0 t0 dl (M2\<lparr>assigned_node_tag := []\<rparr>)"
    by (rule mesh_inv_tag_lists(1)[OF 2]) simp
  from Cons.IH[OF r this] show ?case by simp
qed

lemma fixed_sweep_node_meshing_inv:
  assumes "fixed_sweep_node_meshing S M = Inr M'" and "mesh_inv n0 t0 dl M"
  shows "mesh_inv n0 t0 dl M'"
proof -
  have "mesh_inv n0 t0 dl (M\<lparr>assigned_node_tag := [], previous_node_tag := []\<rparr>)"
    using assms(2) by (simp add: mesh_inv_def all_elements_def tags_in_range_def)
  from fixed_sweep_columns_inv[OF assms(1)[unfolded fixed_sweep_node_meshing_def] this]
  show ?thesis by simp
qed

section \<open>Invariant: edge regions of the orthogonal meshing\<close>

lemma bind_err_InrE:
  assumes "bind_err r f = Inr y"
  obtains v where "r = Inr v" and "f v = Inr y"
  using assms by (cases r) auto

lemma pick_in_set: "pick w xs = Inr v \<Longrightarrow> v \<in> set xs"
  by (cases w) (auto simp: pick_def list_getitem_def split: if_splits)

lemma link_skew_edge_inv:
  assumes "link_skew_edge M w = Inr M'" and "mesh_inv n0 t0 dl M"
    and "set (previous_node_tag M) \<inter> set (assigned_node_tag M) = {}"
  shows "mesh_inv n0 t0 dl M' \<and> same_tags M M'"
  using assms(1) unfolding link_skew_edge_def Let_def
proof (elim bind_err_InrE, goal_cases)
  case (1 pre cur M1)
  from pick_in_set[OF 1(1)] pick_in_set[OF 1(2)] assms(3) have "pre \<noteq> cur" by auto
  from assign_edge_inv[OF 1(3) assms(2) this] 1(4) show ?case by auto
qed

lemma link_search_column_inv:
  assumes "link_search_column sd M = Inr M'" and inv: "mesh_inv n0 t0 dl M"
    and d: "set (previous_node_tag M) \<inter> set (assigned_node_tag M) = {}"
  shows "mesh_inv n0 t0 dl M' \<and> node_counter M' = node_counter M \<and>
         assigned_node_tag M' = assigned_node_tag M"
  using assms(1) unfolding link_search_column_def
proof (elim bind_err_InrE, goal_cases)
  case (1 M2 M3)
  from link_longitudinal_inv[OF 1(1) inv d] have 2: "mesh_inv n0 t0 dl M2" "same_tags M M2"
    by simp_all
  have d2: "set (previous_node_tag M2) \<inter> set (assigned_node_tag M2) = {}"
    using d same_tags_fields(3,4)[OF 2(2)] by simp
  have "(\<exists>w. link_skew_edge M2 w = Inr M3) \<or> M3 = M2"
    using 1(2) by (auto split: if_splits)
  then have 3: "mesh_inv n0 t0 dl M3 \<and> same_tags M2 M3"
    using link_skew_edge_inv[OF _ 2(1) d2] 2(1) by auto
  then have s: "same_tags M M3"
    using 2(2) by (blast intro: same_tags_trans)
  have M': "M' = M3\<lparr>previous_node_tag := assigned_node_tag M3\<rparr>"
    using 1(3) by simp
  have "mesh_inv n0 t0 dl M'"
    unfolding M' by (rule mesh_inv_tag_lists(2)[OF conjunct1[OF 3] mesh_inv_ranges(1)[OF conjunct1[OF 3]]])
  then show ?case
    using same_tags_fields(2,3)[OF s] by (simp add: M')
qed

lemma close_search_column_inv:
  assumes "mesh_inv n0 t0 dl M"
  shows "mesh_inv n0 t0 dl (close_search_column sd M) \<and>
         assigned_node_tag (close_search_column sd M) = [] \<and>
         node_counter (close_search_column sd M) = node_counter M"
proof -
  let ?M2 = "set_region (side_region sd) (M\<lparr>global_x_grid_count := global_x_grid_count M + 1\<rparr>)"
  have 2: "mesh_inv n0 t0 dl ?M2"
    using assms by (simp add: set_region_inv)
  have 3: "mesh_inv n0 t0 dl (?M2\<lparr>assigned_node_tag := []\<rparr>)"
    by (rule mesh_inv_tag_lists(1)[OF 2]) simp
  have e: "close_search_column sd M =
           ?M2\<lparr>ortho_previous_node_column := assigned_node_tag ?M2, assigned_node_tag := []\<rparr>"
    by (simp add: close_search_column_def Let_def)
  have "mesh_inv n0 t0 dl (close_search_column sd M)"
    using 3 unfolding e by (simp add: mesh_inv_def all_elements_def tags_in_range_def)
  then show ?thesis
    by (simp add: e)
qed

lemma search_after_column_inv:
  assumes s: "search_after_column sd M z = Inr M'" and inv: "mesh_inv n0 t0 dl M"
    and d: "set (previous_node_tag M) \<inter> set (assigned_node_tag M) = {}"
  shows "mesh_inv n0 t0 dl M' \<and> assigned_node_tag M' = [] \<and> node_counter M' = node_counter M"
  using s unfolding search_after_column_def Let_def
proof (elim bind_err_InrE, goal_cases)
  case (1 M2)
  have M': "M' = close_search_column sd M2"
    using 1(2) by simp
  have "mesh_inv n0 t0 dl M2 \<and> node_counter M2 = node_counter M"
  proof (cases "0 < z")
    case True
    with 1(1) have "link_search_column sd M = Inr M2" by simp
    from link_search_column_inv[OF this inv d] show ?thesis by simp
  next
    case False
    with 1(1) have "M2 = M\<lparr>previous_node_tag := assigned_node_tag M\<rparr>" by simp
    then show ?thesis
      using inv by (simp add: mesh_inv_tag_lists mesh_inv_ranges)
  qed
  then show ?case
    using close_search_column_inv[of n0 t0 dl M2 sd] by (simp add: M')
qed

lemma side_slice_inv [simp]:
  "mesh_inv n0 t0 dl (side_slice sd M c z zg) = mesh_inv n0 t0 dl M"
  by (cases sd) (simp_all add: side_slice_def start_edge_slice_def end_edge_slice_def)

lemma side_slice_fields [simp]:
  "node_counter (side_slice sd M c z zg) = node_counter M"
  "assigned_node_tag (side_slice sd M c z zg) = assigned_node_tag M"
  "previous_node_tag (side_slice sd M c z zg) = previous_node_tag M"
  by (cases sd; simp add: side_slice_def start_edge_slice_def end_edge_slice_def)+

lemma search_column_inv:
  assumes "search_column sd S z pt M = Inr M'" and inv: "mesh_inv n0 t0 dl M"
    and a: "assigned_node_tag M = []"
  shows "mesh_inv n0 t0 dl M' \<and> assigned_node_tag M' = [node_counter M..<node_counter M'] \<and>
         previous_node_tag M' = previous_node_tag M"
proof -
  from assms(1) obtain rp where
    1: "search_x_point S M pt (cx (mesh_origin M)) = Inr rp"
    unfolding search_column_def by (elim bind_err_InrE)
  obtain rx rz where rp: "rp = (rx, rz)" by (cases rp)
  let ?M1 = "M\<lparr>sweep_path_points := sweep_path_points M @ [(rx, y_elevation M, rz)]\<rparr>"
  from assms(1) obtain sl where
    2: "get_slope S (rx, y_elevation M, rz) pt = Inr sl"
    unfolding search_column_def 1 rp by (simp add: Let_def) (elim bind_err_InrE)
  obtain mp phi where sl: "sl = (mp, phi)" by (cases sl)
  from assms(1) obtain zg sn where
    3: "get_node_group_z (side_edge_line sd ?M1) pt = Inr zg"
    and 4: "read_global (g_sweep_nodes (side_slice sd ?M1 (rotate_sweep_nodes ?M1 (side_angle sd ?M1 phi)) z zg)) = Inr sn"
    unfolding search_column_def 1 rp by (simp add: Let_def 2 sl) (elim bind_err_InrE)
  let ?M2 = "side_slice sd ?M1 (rotate_sweep_nodes ?M1 (side_angle sd ?M1 phi)) z zg"
  have p: "place_nodes LinkTransverse FromRecorder NoRegion rx rz (global_x_grid_count ?M2) 0 sn ?M2
           = Inr M'"
    using assms(1) unfolding search_column_def 1 rp by (simp add: Let_def 2 sl 3 4)
  have inv2: "mesh_inv n0 t0 dl ?M2"
    using inv by simp
  have a2: "assigned_node_tag ?M2 = [node_counter ?M2..<node_counter ?M2]"
    using a by simp
  from place_nodes_inv[OF p inv2 a2] show ?thesis by simp
qed

lemma search_columns_inv:
  assumes "search_columns sd S z pts M = Inr M'" and "mesh_inv n0 t0 dl M"
    and "assigned_node_tag M = []"
  shows "mesh_inv n0 t0 dl M' \<and> assigned_node_tag M' = []"
  using assms
proof (induction pts arbitrary: M z)
  case Nil
  then show ?case by simp
next
  case (Cons pt rest)
  from Cons.prems(1) obtain M3 M4 where
    p: "search_column sd S z pt M = Inr M3"
    and a: "search_after_column sd M3 z = Inr M4"
    and r: "search_columns sd S (z + 1) rest M4 = Inr M'"
    by (auto simp: bind_err_Inr_iff)
  from search_column_inv[OF p Cons.prems(2,3)] have
    3: "mesh_inv n0 t0 dl M3" "assigned_node_tag M3 = [node_counter M..<node_counter M3]"
       "previous_node_tag M3 = previous_node_tag M"
    by simp_all
  have d: "set (previous_node_tag M3) \<inter> set (assigned_node_tag M3) = {}"
    unfolding 3(2,3)
    by (rule tags_in_range_disjoint[OF mesh_inv_ranges(2)[OF Cons.prems(2)]]) simp
  from search_after_column_inv[OF a 3(1) d] have "mesh_inv n0 t0 dl M4" "assigned_node_tag M4 = []"
    by simp_all
  from Cons.IH[OF r this] show ?case .
qed

lemma start_edge_region_inv:
  assumes "start_edge_region S M = Inr M'" and "mesh_inv n0 t0 dl M"
    and "assigned_node_tag M = []"
  shows "mesh_inv n0 t0 dl M' \<and> assigned_node_tag M' = []"
proof (cases "\<bar>skew_1 M + zeta M\<bar> < fst (skew_threshold M)")
  case True
  with assms(1) obtain M1 where
    p: "place_nodes LinkEdge FromIndex FirstRegion (cx (mesh_origin M)) (cz (mesh_origin M))
          (global_x_grid_count M) 0 (node_list (start_edge_line M)) M = Inr M1"
    and M': "M' = M1\<lparr>global_x_grid_count := global_x_grid_count M1 + 1, assigned_node_tag := []\<rparr>"
    by (auto simp: start_edge_region_def Let_def bind_err_Inr_iff)
  have a0: "assigned_node_tag M = [node_counter M..<node_counter M]"
    using assms(3) by simp
  from place_nodes_inv[OF p assms(2) a0] have 1: "mesh_inv n0 t0 dl M1" by simp
  have "mesh_inv n0 t0 dl (M1\<lparr>assigned_node_tag := []\<rparr>)"
    by (rule mesh_inv_tag_lists(1)[OF 1]) simp
  then show ?thesis
    by (simp add: M' mesh_inv_def all_elements_def tags_in_range_def)
next
  case False
  with assms(1) obtain M1 where
    s: "search_columns StartEdge S 0 (node_list (start_edge_line M)) M = Inr M1"
    and M': "M' = M1\<lparr>global_edge_count := global_edge_count M1 + 1\<rparr>"
    by (auto simp: start_edge_region_def Let_def bind_err_Inr_iff)
  from search_columns_inv[OF s assms(2,3)] show ?thesis
    by (simp add: M')
qed

lemma end_edge_region_inv:
  assumes "end_edge_region S M = Inr M'" and "mesh_inv n0 t0 dl M"
    and "assigned_node_tag M = []"
  shows "mesh_inv n0 t0 dl M'"
proof (cases "\<bar>skew_2 M + zeta M\<bar> < fst (skew_threshold M)")
  case True
  with assms(1) obtain M1 where
    p: "place_nodes LinkEdge FromIndex EndRegion 0 0
          (global_x_grid_count M) 0 (node_list (end_edge_line M)) M = Inr M1"
    and M': "M' = M1\<lparr>global_x_grid_count := global_x_grid_count M1 + 1\<rparr>"
    by (auto simp: end_edge_region_def Let_def bind_err_Inr_iff)
  have a0: "assigned_node_tag M = [node_counter M..<node_counter M]"
    using assms(3) by simp
  from place_nodes_inv[OF p assms(2) a0] show ?thesis
    by (simp add: M')
next
  case False
  with assms(1) obtain M1 where
    s: "search_columns EndEdge S 0 (node_list (end_edge_line M)) M = Inr M1"
    and M': "M' = M1\<lparr>global_edge_count := global_edge_count M1 + 1\<rparr>"
    by (auto simp: end_edge_region_def Let_def bind_err_Inr_iff)
  from search_columns_inv[OF s assms(2,3)] show ?thesis
    by (simp add: M')
qed

section \<open>Invariant: uniform region and the constructor\<close>

lemma uniform_column_inv:
  assumes "uniform_column S x M = Inr M'" and inv: "mesh_inv n0 t0 dl M"
    and a: "assigned_node_tag M = []"
  shows "mesh_inv n0 t0 dl M' \<and> assigned_node_tag M' = [node_counter M..<node_counter M'] \<and>
         previous_node_tag M' = previous_node_tag M \<and>
         first_connecting_region_nodes M' = first_connecting_region_nodes M \<and>
         end_connecting_region_nodes M' = end_connecting_region_nodes M"
  using assms(1) unfolding uniform_column_def Let_def
proof (elim bind_err_InrE, goal_cases)
  case (1 z)
  then obtain zi where
    p: "place_nodes LinkTransverse FromIndex NoRegion x zi (global_x_grid_count M) 0
          (rotate_sweep_nodes M (zeta M / 180 * pi)) M = Inr M'"
    by (auto split: if_splits)
  have a0: "assigned_node_tag M = [node_counter M..<node_counter M]"
    using a by simp
  from place_nodes_inv[OF p inv a0] show ?case by simp
qed

lemma uniform_after_column_inv:
  assumes u: "uniform_after_column n z M = Inr M'" and inv: "mesh_inv n0 t0 dl M"
    and a: "assigned_node_tag M = [c0..<node_counter M]"
    and p: "list_all (\<lambda>t. t < c0) (previous_node_tag M)"
    and f: "list_all (\<lambda>t. t < c0) (first_connecting_region_nodes M)"
    and e: "list_all (\<lambda>t. t < c0) (end_connecting_region_nodes M)"
  shows "mesh_inv n0 t0 dl M' \<and> (z \<noteq> n - 1 \<longrightarrow> assigned_node_tag M' = []) \<and>
         set (previous_node_tag M') \<inter> set (assigned_node_tag M') = {}"
proof -
  let ?M1 = "if z = 0 then M\<lparr>previous_node_tag := first_connecting_region_nodes M\<rparr> else M"
  have inv1: "mesh_inv n0 t0 dl ?M1"
    using inv by (simp add: mesh_inv_tag_lists mesh_inv_ranges)
  have a1: "assigned_node_tag ?M1 = [c0..<node_counter M]" "node_counter ?M1 = node_counter M"
    "end_connecting_region_nodes ?M1 = end_connecting_region_nodes M"
    using a by simp_all
  have p1: "list_all (\<lambda>t. t < c0) (previous_node_tag ?M1)"
    using p f by simp
  have d1: "set (previous_node_tag ?M1) \<inter> set (assigned_node_tag ?M1) = {}"
  proof -
    have "\<And>t. t \<in> set (previous_node_tag ?M1) \<Longrightarrow> t < c0"
      using p1 unfolding list_all_iff by blast
    then show ?thesis
      unfolding a1 by fastforce
  qed
  from u obtain M2 where
    l: "link_longitudinal ?M1 (previous_node_tag ?M1) (assigned_node_tag ?M1) = Inr M2"
    and M': "M' = (let M3 = M2\<lparr>global_x_grid_count := global_x_grid_count M2 + 1\<rparr> in
               if z \<noteq> n - 1
               then M3\<lparr>previous_node_tag := assigned_node_tag M3, assigned_node_tag := []\<rparr>
               else M3\<lparr>previous_node_tag := assigned_node_tag M3,
                       assigned_node_tag := end_connecting_region_nodes M3\<rparr>)"
    unfolding uniform_after_column_def Let_def
    by (elim bind_err_InrE) auto
  from link_longitudinal_inv[OF l inv1 d1] have 2: "mesh_inv n0 t0 dl M2" "same_tags ?M1 M2"
    by simp_all
  have f2: "assigned_node_tag M2 = [c0..<node_counter M]"
    "end_connecting_region_nodes M2 = end_connecting_region_nodes M"
    using same_tags_fields(3,6)[OF 2(2)] a1 by simp_all
  let ?M3 = "M2\<lparr>global_x_grid_count := global_x_grid_count M2 + 1\<rparr>"
  have 3: "mesh_inv n0 t0 dl ?M3"
    using 2(1) by simp
  have 4: "mesh_inv n0 t0 dl (?M3\<lparr>previous_node_tag := assigned_node_tag ?M3\<rparr>)"
    by (rule mesh_inv_tag_lists(2)[OF 3 mesh_inv_ranges(1)[OF 3]])
  have 5: "mesh_inv n0 t0 dl
             (?M3\<lparr>previous_node_tag := assigned_node_tag ?M3, assigned_node_tag := []\<rparr>)"
    by (rule mesh_inv_tag_lists(1)[OF 4]) (simp add: tags_in_range_def)
  have 6: "mesh_inv n0 t0 dl
             (?M3\<lparr>previous_node_tag := assigned_node_tag ?M3,
                   assigned_node_tag := end_connecting_region_nodes ?M3\<rparr>)"
    using mesh_inv_tag_lists(1)[OF 4, of "end_connecting_region_nodes ?M3"]
      mesh_inv_ranges(4)[OF 4] by simp
  have d: "set [c0..<node_counter M] \<inter> set (end_connecting_region_nodes M) = {}"
    using e by (auto simp: list_all_iff)
  show ?thesis
  proof (cases "z \<noteq> n - 1")
    case True
    then have "M' = ?M3\<lparr>previous_node_tag := assigned_node_tag ?M3, assigned_node_tag := []\<rparr>"
      using M' by (simp add: Let_def)
    then show ?thesis using 5 True by simp
  next
    case False
    then have "M' = ?M3\<lparr>previous_node_tag := assigned_node_tag ?M3,
                        assigned_node_tag := end_connecting_region_nodes ?M3\<rparr>"
      using M' by (simp add: Let_def)
    then show ?thesis using 6 False d f2 by simp
  qed
qed

lemma tags_in_range_below:
  "tags_in_range n0 M xs \<Longrightarrow> list_all (\<lambda>t. t < node_counter M) xs"
  by (simp add: tags_in_range_def list_all_iff)

lemma uniform_columns_inv:
  assumes "uniform_columns S n z xs M = Inr M'" and "mesh_inv n0 t0 dl M"
    and "assigned_node_tag M = []" and "n = z + length xs"
  shows "mesh_inv n0 t0 dl M' \<and> set (previous_node_tag M') \<inter> set (assigned_node_tag M') = {}"
  using assms
proof (induction xs arbitrary: M z)
  case Nil
  then show ?case by simp
next
  case (Cons x rest)
  from Cons.prems(1) obtain M1 M2 where
    c: "uniform_column S x M = Inr M1"
    and a: "uniform_after_column n z M1 = Inr M2"
    and r: "uniform_columns S n (z + 1) rest M2 = Inr M'"
    by (auto simp: bind_err_Inr_iff)
  from uniform_column_inv[OF c Cons.prems(2,3)] have
    1: "mesh_inv n0 t0 dl M1" "assigned_node_tag M1 = [node_counter M..<node_counter M1]"
       "previous_node_tag M1 = previous_node_tag M"
       "first_connecting_region_nodes M1 = first_connecting_region_nodes M"
       "end_connecting_region_nodes M1 = end_connecting_region_nodes M"
    by simp_all
  have b: "list_all (\<lambda>t. t < node_counter M) (previous_node_tag M1)"
    "list_all (\<lambda>t. t < node_counter M) (first_connecting_region_nodes M1)"
    "list_all (\<lambda>t. t < node_counter M) (end_connecting_region_nodes M1)"
    unfolding 1(3,4,5)
    using mesh_inv_ranges(2,3,4)[OF Cons.prems(2)] by (simp_all add: tags_in_range_below)
  from uniform_after_column_inv[OF a 1(1,2) b] have
    2: "mesh_inv n0 t0 dl M2" "z \<noteq> n - 1 \<longrightarrow> assigned_node_tag M2 = []"
       "set (previous_node_tag M2) \<inter> set (assigned_node_tag M2) = {}"
    by simp_all
  show ?case
  proof (cases rest)
    case Nil
    with r have "M' = M2" by simp
    then show ?thesis using 2 by simp
  next
    case (Cons y ys)
    with Cons.prems(4) have "z \<noteq> n - 1" by simp
    with 2(2) have e: "assigned_node_tag M2 = []" by simp
    have "n = (z + 1) + length rest"
      using Cons.prems(4) by simp
    from Cons.IH[OF r 2(1) e this] show ?thesis .
  qed
qed

lemma uniform_region_inv:
  assumes "uniform_region S M = Inr M'" and inv: "mesh_inv n0 t0 dl M"
    and a: "assigned_node_tag M = []"
  shows "mesh_inv n0 t0 dl M'"
proof -
  from assms(1) obtain xf xs nf ns where
    "list_getitem (first_connecting_region_nodes M) 0 = Inr xf"
    "list_getitem (end_connecting_region_nodes M) 0 = Inr xs"
    "getitem (node_spec M) xf = Inr nf"
    "getitem (node_spec M) xs = Inr ns"
    unfolding uniform_region_def by (elim bind_err_InrE)
  note g = this
  let ?M1 = "M\<lparr>uniform_region_x :=
                 linspace (cx (coordinate nf)) (cx (coordinate ns)) (num_trans_beam M)\<rparr>"
  let ?st = "butlast (tl (uniform_region_x ?M1))"
  from assms(1) obtain M2 where
    u: "uniform_columns S (length ?st) 0 ?st ?M1 = Inr M2"
    and l: "link_longitudinal M2 (previous_node_tag M2) (assigned_node_tag M2) = Inr M'"
    unfolding uniform_region_def by (simp add: g Let_def) (elim bind_err_InrE)
  have inv1: "mesh_inv n0 t0 dl ?M1"
    using inv by simp
  have a1: "assigned_node_tag ?M1 = []"
    using a by simp
  from uniform_columns_inv[OF u inv1 a1] have
    2: "mesh_inv n0 t0 dl M2" "set (previous_node_tag M2) \<inter> set (assigned_node_tag M2) = {}"
    by simp_all
  from link_longitudinal_inv[OF l 2] show ?thesis by simp
qed

lemma orthogonal_meshing_inv:
  assumes "orthogonal_meshing S M = Inr M'" and inv: "mesh_inv n0 t0 dl M"
  shows "mesh_inv n0 t0 dl M'"
proof -
  let ?M0 = "M\<lparr>assigned_node_tag := [], previous_node_tag := [], sweep_path_points := []\<rparr>"
  have inv0: "mesh_inv n0 t0 dl ?M0"
    using inv by (simp add: mesh_inv_def all_elements_def tags_in_range_def)
  have a0: "assigned_node_tag ?M0 = []"
    by simp
  from assms(1) obtain M1 M2 where
    s: "start_edge_region S ?M0 = Inr M1"
    and e: "end_edge_region S M1 = Inr M2"
    and u: "uniform_region S (M2\<lparr>assigned_node_tag := []\<rparr>) = Inr M'"
    unfolding orthogonal_meshing_def Let_def by (elim bind_err_InrE)
  from start_edge_region_inv[OF s inv0 a0] have
    1: "mesh_inv n0 t0 dl M1" "assigned_node_tag M1 = []"
    by simp_all
  from end_edge_region_inv[OF e 1] have 2: "mesh_inv n0 t0 dl M2" .
  have 3: "mesh_inv n0 t0 dl (M2\<lparr>assigned_node_tag := []\<rparr>)"
    by (rule mesh_inv_tag_lists(1)[OF 2]) (simp add: tags_in_range_def)
  from uniform_region_inv[OF u 3] show ?thesis by simp
qed

lemma Mesh_init_inv:
  assumes "Mesh_init S a = Inr M"
  shows "mesh_inv (a_node_counter a) (a_transform_counter a) 3 M"
  using assms unfolding Mesh_init_def Let_def
  by (elim bind_err_InrE)
     (auto simp: mesh_inv_def all_elements_def tags_in_range_def
           split: prod.splits sweep_line_properties.splits option.splits
           elim!: bind_err_InrE)

lemma identify_member_groups_fields:
  assumes "identify_member_groups M = Inr M'"
  shows "node_spec M' = node_spec M" "node_counter M' = node_counter M"
    "transform_dict M' = transform_dict M" "transform_counter M' = transform_counter M"
    "long_ele M' = long_ele M" "trans_ele M' = trans_ele M"
    "edge_span_ele M' = edge_span_ele M" "decimal_lim M' = decimal_lim M"
    "element_counter M' = element_counter M"
    "assigned_node_tag M' = assigned_node_tag M" "previous_node_tag M' = previous_node_tag M"
    "first_connecting_region_nodes M' = first_connecting_region_nodes M"
    "end_connecting_region_nodes M' = end_connecting_region_nodes M"
proof -
  from assms obtain a b c d e f g h i where
    "M' = M\<lparr>common_z_group_element := a,
            node_width_z_dict := b, node_connect_z_dict := c,
            z_group_to_ele := d, x_group_to_ele := e,
            node_width_x_dict := f, node_connect_x_dict := g,
            grid_number_dict := h, grid_vicinity_dict := i\<rparr>"
    unfolding identify_member_groups_def Let_def
    by (elim bind_err_InrE) auto
  then show "node_spec M' = node_spec M" "node_counter M' = node_counter M"
    "transform_dict M' = transform_dict M" "transform_counter M' = transform_counter M"
    "long_ele M' = long_ele M" "trans_ele M' = trans_ele M"
    "edge_span_ele M' = edge_span_ele M" "decimal_lim M' = decimal_lim M"
    "element_counter M' = element_counter M"
    "assigned_node_tag M' = assigned_node_tag M" "previous_node_tag M' = previous_node_tag M"
    "first_connecting_region_nodes M' = first_connecting_region_nodes M"
    "end_connecting_region_nodes M' = end_connecting_region_nodes M"
    by simp_all
qed

lemma Mesh_construct_inv:
  assumes "Mesh_construct S a = Inr M"
  shows "mesh_inv (a_node_counter a) (a_transform_counter a) 3 M"
proof -
  from assms obtain M0 M1 where
    i: "Mesh_init S a = Inr M0"
    and m: "(if orthogonal M0 then orthogonal_meshing S M0
             else if \<not> curve M0 then fixed_sweep_node_meshing S M0 else Inr M0) = Inr M1"
    and g: "identify_member_groups M1 = Inr M"
    unfolding Mesh_construct_def by (elim bind_err_InrE)
  note 0 = Mesh_init_inv[OF i]
  have 1: "mesh_inv (a_node_counter a) (a_transform_counter a) 3 M1"
    using m orthogonal_meshing_inv[OF _ 0] fixed_sweep_node_meshing_inv[OF _ 0] 0
    by (auto split: if_splits)
  show ?thesis
    using 1 unfolding mesh_inv_def all_elements_def tags_in_range_def
      identify_member_groups_fields[OF g] .
qed

end
